theory Spec2Isabelle
  imports Main "HOL-Library.AList"
begin

section \<open>The Snowflake connection helper (rdagent/utils/snowflake\_conn.py)\<close>

text \<open>
  The module reads eight configuration values from the process environment, builds the
  keyword arguments of the driver's \<open>connect\<close>, and offers \<open>run_query\<close>, which runs
  one query and releases cursor and connection in two nested \<open>try ... finally\<close> blocks.

  Strings are byte strings (\<open>string\<close>): a value of the process environment is the
  bytes the operating system holds for it, which Python decodes as UTF-8 with the
  \<open>surrogateescape\<close> handler. The names the module looks up are ASCII, so \<open>str.lower\<close>
  is the ASCII lowering. \<open>str.encode\<close> gives the bytes back when they are well-formed
  UTF-8 and raises \<open>UnicodeEncodeError\<close> otherwise. The process environment
  \<open>os.environ\<close> is a map from names to values. The driver, the cryptography
  library and the objects they hand out are outside the module: they are parameters
  (the record \<open>world\<close>), each call of theirs either returns or raises, and every call that
  leaves the module is written to a trace of events in the order in which it happens.
\<close>

subsection \<open>Exceptions, events, effects\<close>

datatype 'x exn =
    RuntimeError string
  | IndexError
  | ValueError
  | UnicodeEncodeError
  | Raised 'x  \<comment> \<open>raised inside the driver or the cryptography library\<close>

datatype 'k kwval = Str string | PKey 'k

type_synonym 'k kwargs = "(string \<times> 'k kwval) list"

datatype 'k event =
    EnvGet string  \<comment> \<open>\<open>os.environ.get(name)\<close>\<close>
  | LoadPem string  \<comment> \<open>\<open>serialization.load_pem_private_key(data, password=None)\<close>\<close>
  | Connect "'k kwargs"  \<comment> \<open>\<open>snowflake.connector.connect(**conn_kwargs)\<close>\<close>
  | ConnCursor  \<comment> \<open>\<open>conn.cursor()\<close>\<close>
  | CurExecute string  \<comment> \<open>\<open>cur.execute(query)\<close>\<close>
  | CurFetchall  \<comment> \<open>\<open>cur.fetchall()\<close>\<close>
  | CurClose  \<comment> \<open>\<open>cur.close()\<close>\<close>
  | ConnClose  \<comment> \<open>\<open>conn.close()\<close>\<close>

text \<open>A computation yields the events it caused and either an exception or a value.\<close>

type_synonym ('k, 'x, 'a) io = "'k event list \<times> ('x exn + 'a)"

definition io_return :: "'a \<Rightarrow> ('k, 'x, 'a) io" where
  "io_return a = ([], Inr a)"

definition io_raise :: "'x exn \<Rightarrow> ('k, 'x, 'a) io" where
  "io_raise e = ([], Inl e)"

definition io_bind :: "('k, 'x, 'a) io \<Rightarrow> ('a \<Rightarrow> ('k, 'x, 'b) io) \<Rightarrow> ('k, 'x, 'b) io" where
  "io_bind m f =
     (case m of
        (t, Inl e) \<Rightarrow> (t, Inl e)
      | (t, Inr a) \<Rightarrow> (case f a of (t', r) \<Rightarrow> (t @ t', r)))"

text \<open>An external call: one event, then the outcome the collaborator decides.\<close>

definition call :: "'k event \<Rightarrow> 'x exn + 'a \<Rightarrow> ('k, 'x, 'a) io" where
  "call ev outcome = ([ev], outcome)"

text \<open>An external call that returns nothing: \<open>None\<close> when it returns, \<open>Some e\<close> when it raises.\<close>

definition call_unit :: "'k event \<Rightarrow> 'x exn option \<Rightarrow> ('k, 'x, unit) io" where
  "call_unit ev outcome = ([ev], case outcome of None \<Rightarrow> Inr () | Some e \<Rightarrow> Inl e)"

text \<open>
  \<open>try: body finally: fin\<close>. The \<open>finally\<close> block always runs after the body; when it
  raises, its exception replaces whatever the body produced, otherwise the body's return
  value or exception stands.
\<close>

definition try_finally :: "('k, 'x, 'a) io \<Rightarrow> ('k, 'x, unit) io \<Rightarrow> ('k, 'x, 'a) io" where
  "try_finally body fin =
     (case body of (t, r) \<Rightarrow>
        (case fin of
           (t', Inl e) \<Rightarrow> (t @ t', Inl e)
         | (t', Inr _) \<Rightarrow> (t @ t', r)))"

subsection \<open>Strings\<close>

definition lower_char :: "char \<Rightarrow> char" where
  "lower_char c =
     (case map_of (zip ''ABCDEFGHIJKLMNOPQRSTUVWXYZ'' ''abcdefghijklmnopqrstuvwxyz'') c of
        Some l \<Rightarrow> l
      | None \<Rightarrow> c)"

definition lower :: "string \<Rightarrow> string" where
  "lower s = map lower_char s"

fun starts_with :: "string \<Rightarrow> string \<Rightarrow> bool" where
  "starts_with [] s = True"
| "starts_with (p # ps) [] = False"
| "starts_with (p # ps) (c # cs) = (p = c \<and> starts_with ps cs)"

text \<open>
  \<open>s.split(sep)\<close> for a given separator: the pieces between the occurrences of \<open>sep\<close>,
  found from the left without overlap. \<open>acc\<close> holds the current piece, reversed.
\<close>

function split_from :: "string \<Rightarrow> string \<Rightarrow> string \<Rightarrow> string list" where
  "split_from sep acc [] = [rev acc]"
| "split_from sep acc (c # cs) =
     (if sep \<noteq> [] \<and> starts_with sep (c # cs)
      then rev acc # split_from sep [] (drop (length sep) (c # cs))
      else split_from sep (c # acc) cs)"
  by pat_completeness auto
termination
  by (relation "measure (\<lambda>(sep, acc, s). length s)") auto

definition split_str :: "string \<Rightarrow> string \<Rightarrow> 'x exn + string list" where
  "split_str s sep = (if sep = [] then Inl ValueError else Inr (split_from sep [] s))"

text \<open>
  \<open>s.encode()\<close> on a string read from the environment. A byte that is not part of a
  well-formed UTF-8 sequence was decoded to a lone surrogate, which the strict UTF-8
  encoder refuses; well-formed input is encoded to the bytes it came from. The
  well-formed sequences are those of the Unicode standard: no overlong forms, no
  encoded surrogates, nothing above U+10FFFF.
\<close>

definition byte_in :: "nat \<Rightarrow> nat \<Rightarrow> char \<Rightarrow> bool" where
  "byte_in lo hi c = (lo \<le> of_char c \<and> (of_char c :: nat) \<le> hi)"

fun valid_utf8 :: "string \<Rightarrow> bool" where
  "valid_utf8 [] = True"
| "valid_utf8 (a # s) =
     (if byte_in 0 127 a then valid_utf8 s
      else if byte_in 194 223 a then
        (case s of
           b # s' \<Rightarrow> byte_in 128 191 b \<and> valid_utf8 s'
         | _ \<Rightarrow> False)
      else if byte_in 224 239 a then
        (case s of
           b # c # s' \<Rightarrow>
             byte_in (if byte_in 224 224 a then 160 else 128)
                     (if byte_in 237 237 a then 159 else 191) b \<and>
             byte_in 128 191 c \<and> valid_utf8 s'
         | _ \<Rightarrow> False)
      else if byte_in 240 244 a then
        (case s of
           b # c # d # s' \<Rightarrow>
             byte_in (if byte_in 240 240 a then 144 else 128)
                     (if byte_in 244 244 a then 143 else 191) b \<and>
             byte_in 128 191 c \<and> byte_in 128 191 d \<and> valid_utf8 s'
         | _ \<Rightarrow> False)
      else False)"

definition encode :: "string \<Rightarrow> 'x exn + string" where
  "encode s = (if valid_utf8 s then Inr s else Inl UnicodeEncodeError)"

subsection \<open>The environment resolver\<close>

text \<open>
  Python's truth test on an \<open>Optional[str]\<close>: \<open>None\<close> and the empty string are false.
  \<open>truthy v\<close> is the string when \<open>v\<close> passes the test.
\<close>

definition truthy :: "string option \<Rightarrow> string option" where
  "truthy v = (case v of None \<Rightarrow> None | Some s \<Rightarrow> if s = [] then None else Some s)"

text \<open>
  \<open>_env(name)\<close> is \<open>os.environ.get(name) or os.environ.get(name.lower())\<close>: the first
  operand when it is true, the second operand otherwise. \<open>private_env\<close> is the value
  returned, \<open>private_env_reads\<close> the lookups made; the second lookup is made only when
  the first operand is false.
\<close>

definition private_env :: "(string \<rightharpoonup> string) \<Rightarrow> string \<Rightarrow> string option" where
  "private_env environ name =
     (case truthy (environ name) of
        Some v \<Rightarrow> Some v
      | None \<Rightarrow> environ (lower name))"

definition private_env_reads :: "(string \<rightharpoonup> string) \<Rightarrow> string \<Rightarrow> 'k event list" where
  "private_env_reads environ name =
     (case truthy (environ name) of
        Some v \<Rightarrow> [EnvGet name]
      | None \<Rightarrow> [EnvGet name, EnvGet (lower name)])"

definition call_env :: "(string \<rightharpoonup> string) \<Rightarrow> string \<Rightarrow> ('k, 'x, string option) io" where
  "call_env environ name = (private_env_reads environ name, Inr (private_env environ name))"

subsection \<open>The collaborators\<close>

record ('x, 'r) cursor =
  cur_execute :: "string \<Rightarrow> 'x exn option"  \<comment> \<open>\<open>cur.execute(query)\<close>\<close>
  cur_fetchall :: "string \<Rightarrow> 'x exn + 'r list"  \<comment> \<open>\<open>cur.fetchall()\<close> after \<open>query\<close> ran\<close>
  cur_close :: "'x exn option"  \<comment> \<open>\<open>cur.close()\<close>\<close>

record ('x, 'r) connection =
  conn_cursor :: "'x exn + ('x, 'r) cursor"  \<comment> \<open>\<open>conn.cursor()\<close>\<close>
  conn_close :: "'x exn option"  \<comment> \<open>\<open>conn.close()\<close>\<close>

text \<open>
  \<open>snowflake\<close> is the module global: \<open>None\<close> when \<open>import snowflake.connector\<close> failed,
  otherwise the driver, that is its \<open>connect\<close>. \<open>serialization\<close> is \<open>None\<close> when the
  import of \<open>cryptography.hazmat.primitives.serialization\<close> fails, otherwise its
  \<open>load_pem_private_key\<close>.
\<close>

record ('x, 'k, 'r) world =
  snowflake :: "('k kwargs \<Rightarrow> 'x exn + ('x, 'r) connection) option"
  serialization :: "(string \<Rightarrow> 'x exn + 'k) option"

subsection \<open>The connection factory\<close>

text \<open>\<open>opt.split("SNOW_")[1].lower()\<close>; the index raises when there is no second piece.\<close>

definition kwarg_key :: "string \<Rightarrow> 'x exn + string" where
  "kwarg_key opt =
     (case split_str opt ''SNOW_'' of
        Inl e \<Rightarrow> Inl e
      | Inr (_ # piece # _) \<Rightarrow> Inr (lower piece)
      | Inr _ \<Rightarrow> Inl IndexError)"

text \<open>The loop over the optional names (lines 55 to 58).\<close>

primrec add_optionals ::
  "string list \<Rightarrow> (string \<rightharpoonup> string) \<Rightarrow> 'k kwargs \<Rightarrow> ('k, 'x, 'k kwargs) io" where
  "add_optionals [] environ conn_kwargs = io_return conn_kwargs"
| "add_optionals (opt # opts) environ conn_kwargs =
     io_bind (call_env environ opt) (\<lambda>v.
       case truthy v of
         Some s \<Rightarrow>
           (case kwarg_key opt of
              Inl e \<Rightarrow> io_raise e
            | Inr k \<Rightarrow> add_optionals opts environ (AList.update k (Str s) conn_kwargs))
       | None \<Rightarrow> add_optionals opts environ conn_kwargs)"

text \<open>
  The choice of the authentication mode (lines 61 to 73). In line 68 the import has
  succeeded, then the argument \<open>private_key_pem.encode()\<close> is evaluated, then the parser
  is called.
\<close>

definition add_auth ::
  "('x, 'k, 'r) world \<Rightarrow> string option \<Rightarrow> string option \<Rightarrow> 'k kwargs \<Rightarrow> ('k, 'x, 'k kwargs) io"
  where
  "add_auth w password private_key_pem conn_kwargs =
     (case truthy private_key_pem of
        Some pem \<Rightarrow>
          (case serialization w of
             None \<Rightarrow> io_raise (RuntimeError ''cryptography is required for private key auth'')
           | Some load_pem_private_key \<Rightarrow>
               (case encode pem of
                  Inl e \<Rightarrow> io_raise e
                | Inr data \<Rightarrow>
                    io_bind (call (LoadPem data) (load_pem_private_key data)) (\<lambda>pkey.
                      io_return (AList.update ''private_key'' (PKey pkey) conn_kwargs))))
      | None \<Rightarrow>
          (case truthy password of
             Some p \<Rightarrow> io_return (AList.update ''password'' (Str p) conn_kwargs)
           | None \<Rightarrow>
               io_raise (RuntimeError ''Provide SNOW_PWD or SNOW_PRIVATE_KEY for authentication'')))"

definition get_snowflake_conn ::
  "('x, 'k, 'r) world \<Rightarrow> (string \<rightharpoonup> string) \<Rightarrow> ('k, 'x, ('x, 'r) connection) io" where
  "get_snowflake_conn w environ =
     (case snowflake w of
        None \<Rightarrow> io_raise (RuntimeError ''snowflake-connector-python is not installed'')
      | Some connect \<Rightarrow>
          io_bind (call_env environ ''SNOW_USER'') (\<lambda>user.
          io_bind (call_env environ ''SNOW_ACCOUNT'') (\<lambda>account.
          io_bind (call_env environ ''SNOW_PWD'') (\<lambda>password.
          io_bind (call_env environ ''SNOW_PRIVATE_KEY'') (\<lambda>private_key_pem.
            case (truthy user, truthy account) of
              (Some u, Some a) \<Rightarrow>
                io_bind (add_optionals
                           [''SNOW_WAREHOUSE'', ''SNOW_DATABASE'', ''SNOW_SCHEMA'', ''SNOW_ROLE'']
                           environ [(''user'', Str u), (''account'', Str a)]) (\<lambda>conn_kwargs.
                io_bind (add_auth w password private_key_pem conn_kwargs) (\<lambda>conn_kwargs.
                  call (Connect conn_kwargs) (connect conn_kwargs)))
            | _ \<Rightarrow>
                io_raise
                  (RuntimeError ''Missing SNOW_USER or SNOW_ACCOUNT environment variables''))))))"

subsection \<open>The query runner\<close>

definition run_query ::
  "('x, 'k, 'r) world \<Rightarrow> (string \<rightharpoonup> string) \<Rightarrow> string \<Rightarrow> ('k, 'x, 'r list) io" where
  "run_query w environ query =
     io_bind (get_snowflake_conn w environ) (\<lambda>conn.
       try_finally
         (io_bind (call ConnCursor (conn_cursor conn)) (\<lambda>cur.
            try_finally
              (io_bind (call_unit (CurExecute query) (cur_execute cur query)) (\<lambda>_.
                 call CurFetchall (cur_fetchall cur query)))
              (call_unit CurClose (cur_close cur))))
         (call_unit ConnClose (conn_close conn)))"

subsection \<open>Notions used in the statements\<close>

text \<open>
  The keyword arguments of the \<open>connect\<close> calls and the queries of the \<open>execute\<close> calls
  of a trace, in order; the update \<open>if v: conn_kwargs[k] = v\<close> of lines 57 and 58 and
  the dictionary the loop leaves for the four optional names; the lookups made for the
  required and for the optional names.
\<close>

definition connects :: "'k event list \<Rightarrow> 'k kwargs list" where
  "connects t = concat (map (\<lambda>ev. case ev of Connect kw \<Rightarrow> [kw] | _ \<Rightarrow> []) t)"

definition executes :: "'k event list \<Rightarrow> string list" where
  "executes t = concat (map (\<lambda>ev. case ev of CurExecute q \<Rightarrow> [q] | _ \<Rightarrow> []) t)"

definition put_opt :: "string \<Rightarrow> string option \<Rightarrow> 'k kwargs \<Rightarrow> 'k kwargs" where
  "put_opt k v conn_kwargs =
     (case truthy v of Some s \<Rightarrow> AList.update k (Str s) conn_kwargs | None \<Rightarrow> conn_kwargs)"

definition with_optionals :: "(string \<rightharpoonup> string) \<Rightarrow> 'k kwargs \<Rightarrow> 'k kwargs" where
  "with_optionals environ conn_kwargs =
     put_opt ''role'' (private_env environ ''SNOW_ROLE'')
       (put_opt ''schema'' (private_env environ ''SNOW_SCHEMA'')
          (put_opt ''database'' (private_env environ ''SNOW_DATABASE'')
             (put_opt ''warehouse'' (private_env environ ''SNOW_WAREHOUSE'') conn_kwargs)))"

definition required_reads :: "(string \<rightharpoonup> string) \<Rightarrow> 'k event list" where
  "required_reads environ =
     private_env_reads environ ''SNOW_USER'' @ private_env_reads environ ''SNOW_ACCOUNT'' @
     private_env_reads environ ''SNOW_PWD'' @ private_env_reads environ ''SNOW_PRIVATE_KEY''"

definition optional_reads :: "(string \<rightharpoonup> string) \<Rightarrow> 'k event list" where
  "optional_reads environ =
     private_env_reads environ ''SNOW_WAREHOUSE'' @ private_env_reads environ ''SNOW_DATABASE'' @
     private_env_reads environ ''SNOW_SCHEMA'' @ private_env_reads environ ''SNOW_ROLE''"

text \<open>The events the connection factory can cause: lookups, key parsing, connect.\<close>

definition factory_event :: "'k event \<Rightarrow> bool" where
  "factory_event ev =
     (case ev of EnvGet _ \<Rightarrow> True | LoadPem _ \<Rightarrow> True | Connect _ \<Rightarrow> True | _ \<Rightarrow> False)"

subsection \<open>Example environments and collaborators\<close>

text \<open>
  The environment of the specification's example, and a driver whose connect hands out a
  connection with a working cursor; the key parser returns the PEM text as the key.
\<close>

definition example_environ :: "string \<rightharpoonup> string" where
  "example_environ =
     [''SNOW_USER'' \<mapsto> ''alice'', ''SNOW_ACCOUNT'' \<mapsto> ''xy123'', ''SNOW_PWD'' \<mapsto> ''secret'']"

definition example_cursor :: "(unit, string) cursor" where
  "example_cursor =
     \<lparr>cur_execute = (\<lambda>query. None), cur_fetchall = (\<lambda>query. Inr [''row'']), cur_close = None\<rparr>"

definition example_connection :: "(unit, string) cursor \<Rightarrow> (unit, string) connection" where
  "example_connection cur = \<lparr>conn_cursor = Inr cur, conn_close = None\<rparr>"

definition example_world :: "(unit, string) connection \<Rightarrow> (unit, string, string) world" where
  "example_world conn =
     \<lparr>snowflake = Some (\<lambda>conn_kwargs. Inr conn), serialization = Some (\<lambda>pem. Inr pem)\<rparr>"

text \<open>
  Cursors whose \<open>execute\<close> or \<open>fetchall\<close> raises, and a connection whose \<open>cursor\<close>
  raises.
\<close>

definition failing_cursor :: "(unit, string) cursor" where
  "failing_cursor = example_cursor\<lparr>cur_execute := (\<lambda>query. Some (Raised ()))\<rparr>"

definition failing_fetch_cursor :: "(unit, string) cursor" where
  "failing_fetch_cursor = example_cursor\<lparr>cur_fetchall := (\<lambda>query. Inl (Raised ()))\<rparr>"

definition no_cursor_connection :: "(unit, string) connection" where
  "no_cursor_connection = \<lparr>conn_cursor = Inl (Raised ()), conn_close = None\<rparr>"

section \<open>Properties\<close>

subsection \<open>The steps of the connection factory\<close>

lemma lower_names:
  "lower ''SNOW_USER'' = ''snow_user''"
  "lower ''SNOW_ACCOUNT'' = ''snow_account''"
  "lower ''SNOW_PWD'' = ''snow_pwd''"
  "lower ''SNOW_PRIVATE_KEY'' = ''snow_private_key''"
  "lower ''SNOW_WAREHOUSE'' = ''snow_warehouse''"
  "lower ''SNOW_DATABASE'' = ''snow_database''"
  "lower ''SNOW_SCHEMA'' = ''snow_schema''"
  "lower ''SNOW_ROLE'' = ''snow_role''"
  by (simp_all add: lower_def lower_char_def)

lemma kwarg_key_names:
  "kwarg_key ''SNOW_WAREHOUSE'' = Inr ''warehouse''"
  "kwarg_key ''SNOW_DATABASE'' = Inr ''database''"
  "kwarg_key ''SNOW_SCHEMA'' = Inr ''schema''"
  "kwarg_key ''SNOW_ROLE'' = Inr ''role''"
  by (simp_all add: kwarg_key_def split_str_def lower_def lower_char_def)

lemma add_optionals_step:
  fixes kw :: "'k kwargs"
  assumes "(kwarg_key opt :: 'x exn + string) = Inr k"
  shows "(add_optionals (opt # opts) environ kw :: ('k, 'x, 'k kwargs) io) =
     (case add_optionals opts environ (put_opt k (private_env environ opt) kw) of
        (t, r) \<Rightarrow> (private_env_reads environ opt @ t, r))"
  using assms by (simp add: io_bind_def call_env_def put_opt_def split: option.splits)

lemma add_optionals_names:
  "add_optionals [''SNOW_WAREHOUSE'', ''SNOW_DATABASE'', ''SNOW_SCHEMA'', ''SNOW_ROLE''] environ kw =
     (optional_reads environ, Inr (with_optionals environ kw))"
  by (simp only: add_optionals_step [OF kwarg_key_names(1)] add_optionals_step [OF kwarg_key_names(2)]
        add_optionals_step [OF kwarg_key_names(3)] add_optionals_step [OF kwarg_key_names(4)]
        add_optionals.simps(1) io_return_def optional_reads_def with_optionals_def
        prod.case append_Nil2 append_assoc)

lemma map_of_put_opt:
  "map_of (put_opt k v kw) = (case truthy v of Some s \<Rightarrow> (map_of kw)(k \<mapsto> Str s) | None \<Rightarrow> map_of kw)"
  by (simp add: put_opt_def update_conv' split: option.splits)

lemma add_auth_cases:
  "truthy pem = Some p \<Longrightarrow> serialization w = None \<Longrightarrow>
     add_auth w pwd pem kw = ([], Inl (RuntimeError ''cryptography is required for private key auth''))"
  "truthy pem = Some p \<Longrightarrow> serialization w = Some load \<Longrightarrow> \<not> valid_utf8 p \<Longrightarrow>
     add_auth w pwd pem kw = ([], Inl UnicodeEncodeError)"
  "truthy pem = Some p \<Longrightarrow> serialization w = Some load \<Longrightarrow> valid_utf8 p \<Longrightarrow>
     load p = Inl e \<Longrightarrow> add_auth w pwd pem kw = ([LoadPem p], Inl e)"
  "truthy pem = Some p \<Longrightarrow> serialization w = Some load \<Longrightarrow> valid_utf8 p \<Longrightarrow>
     load p = Inr key \<Longrightarrow>
     add_auth w pwd pem kw = ([LoadPem p], Inr (AList.update ''private_key'' (PKey key) kw))"
  "truthy pem = None \<Longrightarrow> truthy pwd = Some s \<Longrightarrow>
     add_auth w pwd pem kw = ([], Inr (AList.update ''password'' (Str s) kw))"
  "truthy pem = None \<Longrightarrow> truthy pwd = None \<Longrightarrow>
     add_auth w pwd pem kw =
       ([], Inl (RuntimeError ''Provide SNOW_PWD or SNOW_PRIVATE_KEY for authentication''))"
  by (simp_all add: add_auth_def encode_def io_raise_def io_return_def io_bind_def call_def)

lemma valid_utf8_PEM: "valid_utf8 ''PEM''"
  by (simp add: byte_in_def)

lemma get_snowflake_conn_no_driver:
  "snowflake w = None \<Longrightarrow>
   get_snowflake_conn w environ =
     ([], Inl (RuntimeError ''snowflake-connector-python is not installed''))"
  by (simp add: get_snowflake_conn_def io_raise_def)

lemma get_snowflake_conn_missing:
  assumes "snowflake w = Some c"
    and "truthy (private_env environ ''SNOW_USER'') = None \<or>
         truthy (private_env environ ''SNOW_ACCOUNT'') = None"
  shows "get_snowflake_conn w environ =
     (required_reads environ,
      Inl (RuntimeError ''Missing SNOW_USER or SNOW_ACCOUNT environment variables''))"
  using assms
  by (auto simp add: get_snowflake_conn_def io_bind_def call_env_def io_raise_def
      required_reads_def split: option.splits)

lemma get_snowflake_conn_configured:
  assumes "snowflake w = Some c"
    and "truthy (private_env environ ''SNOW_USER'') = Some u"
    and "truthy (private_env environ ''SNOW_ACCOUNT'') = Some a"
  shows "get_snowflake_conn w environ =
     (case add_auth w (private_env environ ''SNOW_PWD'') (private_env environ ''SNOW_PRIVATE_KEY'')
             (with_optionals environ [(''user'', Str u), (''account'', Str a)]) of
        (t, Inl e) \<Rightarrow> (required_reads environ @ optional_reads environ @ t, Inl e)
      | (t, Inr kw) \<Rightarrow> (required_reads environ @ optional_reads environ @ t @ [Connect kw], c kw))"
  using assms unfolding get_snowflake_conn_def add_optionals_names
  by (simp add: io_bind_def call_env_def call_def required_reads_def
      split: prod.splits sum.splits)

lemma connects_simps:
  "connects [] = []"
  "connects (EnvGet n # t) = connects t"
  "connects (LoadPem p # t) = connects t"
  "connects (Connect kw # t) = kw # connects t"
  "connects (ConnCursor # t) = connects t"
  "connects (CurExecute q # t) = connects t"
  "connects (CurFetchall # t) = connects t"
  "connects (CurClose # t) = connects t"
  "connects (ConnClose # t) = connects t"
  "connects (t @ t') = connects t @ connects t'"
  by (simp_all add: connects_def)

lemma connects_reads:
  "connects (private_env_reads environ name) = []"
  "connects (required_reads environ) = []"
  "connects (optional_reads environ) = []"
  by (simp_all add: private_env_reads_def required_reads_def optional_reads_def connects_simps
      split: option.splits)

lemma set_connects: "kw \<in> set (connects t) \<longleftrightarrow> Connect kw \<in> set t"
  by (induction t) (auto simp add: connects_def split: event.splits)

lemma connects_add_auth: "connects (fst (add_auth w pwd pem kw)) = []"
  by (simp add: add_auth_def encode_def io_raise_def io_return_def io_bind_def call_def
      connects_simps split: option.splits sum.splits)

text \<open>The connect calls of the factory: none, or one with the dictionary built.\<close>

lemma connects_get_snowflake_conn:
  "connects (fst (get_snowflake_conn w environ)) =
     (case snowflake w of
        None \<Rightarrow> []
      | Some c \<Rightarrow>
          (case (truthy (private_env environ ''SNOW_USER''),
                 truthy (private_env environ ''SNOW_ACCOUNT'')) of
             (Some u, Some a) \<Rightarrow>
               (case snd (add_auth w (private_env environ ''SNOW_PWD'')
                            (private_env environ ''SNOW_PRIVATE_KEY'')
                            (with_optionals environ [(''user'', Str u), (''account'', Str a)])) of
                  Inl e \<Rightarrow> []
                | Inr kw \<Rightarrow> [kw])
           | _ \<Rightarrow> []))"
proof (cases "snowflake w")
  case None
  then show ?thesis by (simp add: get_snowflake_conn_no_driver connects_simps)
next
  case (Some c)
  show ?thesis
  proof (cases "truthy (private_env environ ''SNOW_USER'') = None \<or>
                truthy (private_env environ ''SNOW_ACCOUNT'') = None")
    case True
    with Some show ?thesis
      by (auto simp add: get_snowflake_conn_missing connects_reads split: option.splits)
  next
    case False
    then obtain u a where ua: "truthy (private_env environ ''SNOW_USER'') = Some u"
      "truthy (private_env environ ''SNOW_ACCOUNT'') = Some a" by auto
    obtain t r where aa: "add_auth w (private_env environ ''SNOW_PWD'')
        (private_env environ ''SNOW_PRIVATE_KEY'')
        (with_optionals environ [(''user'', Str u), (''account'', Str a)]) = (t, r)"
      by (cases "add_auth w (private_env environ ''SNOW_PWD'')
        (private_env environ ''SNOW_PRIVATE_KEY'')
        (with_optionals environ [(''user'', Str u), (''account'', Str a)])") blast
    have "connects t = []"
      using connects_add_auth [of w "private_env environ ''SNOW_PWD''"
          "private_env environ ''SNOW_PRIVATE_KEY''"
          "with_optionals environ [(''user'', Str u), (''account'', Str a)]"]
      by (simp add: aa)
    then show ?thesis
      by (cases r)
        (simp_all add: get_snowflake_conn_configured [OF Some ua] Some ua aa connects_simps
          connects_reads)
  qed
qed

lemma snd_get_snowflake_conn_configured:
  assumes "snowflake w = Some c"
    and "truthy (private_env environ ''SNOW_USER'') = Some u"
    and "truthy (private_env environ ''SNOW_ACCOUNT'') = Some a"
  shows "snd (get_snowflake_conn w environ) =
     (case snd (add_auth w (private_env environ ''SNOW_PWD'') (private_env environ ''SNOW_PRIVATE_KEY'')
             (with_optionals environ [(''user'', Str u), (''account'', Str a)])) of
        Inl e \<Rightarrow> Inl e
      | Inr kw \<Rightarrow> c kw)"
  by (simp add: get_snowflake_conn_configured [OF assms] split: prod.splits sum.splits)

lemma map_of_with_optionals:
  "map_of (with_optionals environ kw) k =
     (if k = ''role'' \<and> truthy (private_env environ ''SNOW_ROLE'') \<noteq> None
        then map_option Str (truthy (private_env environ ''SNOW_ROLE''))
      else if k = ''schema'' \<and> truthy (private_env environ ''SNOW_SCHEMA'') \<noteq> None
        then map_option Str (truthy (private_env environ ''SNOW_SCHEMA''))
      else if k = ''database'' \<and> truthy (private_env environ ''SNOW_DATABASE'') \<noteq> None
        then map_option Str (truthy (private_env environ ''SNOW_DATABASE''))
      else if k = ''warehouse'' \<and> truthy (private_env environ ''SNOW_WAREHOUSE'') \<noteq> None
        then map_option Str (truthy (private_env environ ''SNOW_WAREHOUSE''))
      else map_of kw k)"
  by (simp add: with_optionals_def map_of_put_opt split: option.splits)

lemma truthy_nonempty: "truthy v = Some s \<Longrightarrow> s \<noteq> []"
  by (simp add: truthy_def split: option.splits if_splits)

text \<open>What a dictionary passed to connect looks like.\<close>

lemma connects_get_snowflake_conn_cases:
  assumes "kw \<in> set (connects (fst (get_snowflake_conn w environ)))"
  shows "\<exists>u a.
    truthy (private_env environ ''SNOW_USER'') = Some u \<and>
    truthy (private_env environ ''SNOW_ACCOUNT'') = Some a \<and>
    ((\<exists>pem key. truthy (private_env environ ''SNOW_PRIVATE_KEY'') = Some pem \<and>
        kw = AList.update ''private_key'' (PKey key)
               (with_optionals environ [(''user'', Str u), (''account'', Str a)])) \<or>
     (\<exists>p. truthy (private_env environ ''SNOW_PRIVATE_KEY'') = None \<and>
        truthy (private_env environ ''SNOW_PWD'') = Some p \<and>
        kw = AList.update ''password'' (Str p)
               (with_optionals environ [(''user'', Str u), (''account'', Str a)])))"
proof -
  from assms obtain c where c: "snowflake w = Some c"
    by (cases "snowflake w") (simp_all add: connects_get_snowflake_conn)
  from assms c obtain u where u: "truthy (private_env environ ''SNOW_USER'') = Some u"
    by (cases "truthy (private_env environ ''SNOW_USER'')")
      (simp_all add: connects_get_snowflake_conn)
  from assms c u obtain a where a: "truthy (private_env environ ''SNOW_ACCOUNT'') = Some a"
    by (cases "truthy (private_env environ ''SNOW_ACCOUNT'')")
      (simp_all add: connects_get_snowflake_conn)
  let ?base = "with_optionals environ [(''user'', Str u), (''account'', Str a)]"
  from assms c u a
  have kw: "snd (add_auth w (private_env environ ''SNOW_PWD'')
                  (private_env environ ''SNOW_PRIVATE_KEY'') ?base) = Inr kw"
    by (simp add: connects_get_snowflake_conn split: sum.splits)
  show ?thesis
  proof (cases "truthy (private_env environ ''SNOW_PRIVATE_KEY'')")
    case None
    with kw obtain p where "truthy (private_env environ ''SNOW_PWD'') = Some p"
      by (cases "truthy (private_env environ ''SNOW_PWD'')") (simp_all add: add_auth_cases)
    with None kw u a show ?thesis by (simp add: add_auth_cases)
  next
    case (Some pem)
    with kw obtain load where load: "serialization w = Some load"
      by (cases "serialization w") (simp_all add: add_auth_cases)
    with Some kw have valid: "valid_utf8 pem"
      by (cases "valid_utf8 pem") (simp_all add: add_auth_cases)
    with Some load kw obtain key where "load pem = Inr key"
      by (cases "load pem") (simp_all add: add_auth_cases)
    with Some load valid kw u a show ?thesis by (auto simp add: add_auth_cases)
  qed
qed

lemma update_values:
  "(k', v') \<in> set (AList.update k v al) \<Longrightarrow> v' = v \<or> (k', v') \<in> set al"
  by (induction al) (auto split: if_splits)

lemma put_opt_nonempty:
  assumes "\<forall>k. (k, Str []) \<notin> set al"
  shows "(k', Str []) \<notin> set (put_opt k x al)"
proof (cases "truthy x")
  case None
  with assms show ?thesis by (simp add: put_opt_def)
next
  case (Some s)
  then have "s \<noteq> []" by (rule truthy_nonempty)
  with assms Some update_values [of k' "Str []" k "Str s" al] show ?thesis
    by (auto simp add: put_opt_def)
qed

lemma with_optionals_nonempty:
  assumes "\<forall>k. (k, Str []) \<notin> set al"
  shows "(k', Str []) \<notin> set (with_optionals environ al)"
  unfolding with_optionals_def
  by (intro put_opt_nonempty allI) (simp add: assms)

lemma truthy_private_env_empty:
  "truthy (private_env (environ(n \<mapsto> [])) name) = truthy (private_env (environ(n := None)) name)"
  by (simp add: private_env_def truthy_def split: option.splits)

lemma private_env_reads_empty:
  "private_env_reads (environ(n \<mapsto> [])) name = private_env_reads (environ(n := None)) name"
  by (simp add: private_env_reads_def truthy_def split: option.splits)

lemma add_auth_truthy:
  assumes "truthy pwd = truthy pwd'" and "truthy pem = truthy pem'"
  shows "add_auth w pwd pem kw = add_auth w pwd' pem' kw"
  unfolding add_auth_def assms by (rule refl)

lemma get_snowflake_conn_cong:
  fixes w :: "('x, 'k, 'r) world"
  assumes v: "\<And>name. truthy (private_env e1 name) = truthy (private_env e2 name)"
    and r: "\<And>name. (private_env_reads e1 name :: 'k event list) = private_env_reads e2 name"
  shows "get_snowflake_conn w e1 = get_snowflake_conn w e2"
proof (cases "snowflake w")
  case None
  then show ?thesis by (simp add: get_snowflake_conn_no_driver)
next
  case (Some c)
  have rr: "(required_reads e1 :: 'k event list) = required_reads e2"
    "(optional_reads e1 :: 'k event list) = optional_reads e2"
    by (simp_all add: required_reads_def optional_reads_def r)
  have wo: "with_optionals e1 kw = with_optionals e2 kw" for kw :: "'k kwargs"
    by (simp add: with_optionals_def put_opt_def v)
  show ?thesis
  proof (cases "truthy (private_env e1 ''SNOW_USER'') = None \<or>
                truthy (private_env e1 ''SNOW_ACCOUNT'') = None")
    case True
    then have "truthy (private_env e2 ''SNOW_USER'') = None \<or>
                truthy (private_env e2 ''SNOW_ACCOUNT'') = None" by (simp add: v)
    with True Some show ?thesis by (simp add: get_snowflake_conn_missing rr)
  next
    case False
    then obtain u a where ua: "truthy (private_env e1 ''SNOW_USER'') = Some u"
      "truthy (private_env e1 ''SNOW_ACCOUNT'') = Some a" by auto
    then have ua': "truthy (private_env e2 ''SNOW_USER'') = Some u"
      "truthy (private_env e2 ''SNOW_ACCOUNT'') = Some a" by (simp_all add: v)
    have "add_auth w (private_env e1 ''SNOW_PWD'') (private_env e1 ''SNOW_PRIVATE_KEY'')
            (with_optionals e1 [(''user'', Str u), (''account'', Str a)]) =
          add_auth w (private_env e2 ''SNOW_PWD'') (private_env e2 ''SNOW_PRIVATE_KEY'')
            (with_optionals e2 [(''user'', Str u), (''account'', Str a)])"
      by (simp add: wo add_auth_truthy [OF v v])
    then show ?thesis
      by (simp add: get_snowflake_conn_configured [OF Some ua]
          get_snowflake_conn_configured [OF Some ua'] rr split: prod.splits sum.splits)
  qed
qed

lemma empty_resolves_false:
  assumes "environ name = Some []" and "truthy (environ (lower name)) = None"
  shows "truthy (private_env environ name) = None"
  using assms by (simp add: private_env_def truthy_def)

lemma no_LoadPem_reads:
  "LoadPem pem \<notin> set (private_env_reads environ name)"
  "LoadPem pem \<notin> set (required_reads environ)"
  "LoadPem pem \<notin> set (optional_reads environ)"
  by (simp_all add: private_env_reads_def required_reads_def optional_reads_def
      split: option.splits)

text \<open>Without a private key the factory ends in one of three ways, and parses no key.\<close>

lemma get_snowflake_conn_no_key:
  assumes pk: "truthy (private_env environ ''SNOW_PRIVATE_KEY'') = None"
  shows "LoadPem pem \<notin> set (fst (get_snowflake_conn w environ))"
    and "truthy (private_env environ ''SNOW_PWD'') = None \<Longrightarrow>
         \<exists>msg. snd (get_snowflake_conn w environ) = Inl (RuntimeError msg)"
proof -
  have "LoadPem pem \<notin> set (fst (get_snowflake_conn w environ)) \<and>
    (truthy (private_env environ ''SNOW_PWD'') = None \<longrightarrow>
         (\<exists>msg. snd (get_snowflake_conn w environ) = Inl (RuntimeError msg)))"
  proof (cases "snowflake w")
    case None
    then show ?thesis by (simp add: get_snowflake_conn_no_driver)
  next
    case (Some c)
    show ?thesis
    proof (cases "truthy (private_env environ ''SNOW_USER'') = None \<or>
                  truthy (private_env environ ''SNOW_ACCOUNT'') = None")
      case True
      with Some show ?thesis by (simp add: get_snowflake_conn_missing no_LoadPem_reads)
    next
      case False
      then obtain u a where ua: "truthy (private_env environ ''SNOW_USER'') = Some u"
        "truthy (private_env environ ''SNOW_ACCOUNT'') = Some a" by auto
      show ?thesis
      proof (cases "truthy (private_env environ ''SNOW_PWD'')")
        case None
        with pk show ?thesis
          by (simp add: get_snowflake_conn_configured [OF Some ua] add_auth_cases
              no_LoadPem_reads)
      next
        case (Some p)
        with pk show ?thesis
          by (simp add: get_snowflake_conn_configured [OF \<open>snowflake w = Some c\<close> ua]
              add_auth_cases no_LoadPem_reads)
      qed
    qed
  qed
  then show "LoadPem pem \<notin> set (fst (get_snowflake_conn w environ))"
    and "truthy (private_env environ ''SNOW_PWD'') = None \<Longrightarrow>
         \<exists>msg. snd (get_snowflake_conn w environ) = Inl (RuntimeError msg)"
    by simp_all
qed

lemma connect_entries:
  assumes "kw \<in> set (connects (fst (get_snowflake_conn w environ)))"
  shows "map_of kw ''warehouse'' = map_option Str (truthy (private_env environ ''SNOW_WAREHOUSE''))"
    and "map_of kw ''database'' = map_option Str (truthy (private_env environ ''SNOW_DATABASE''))"
    and "map_of kw ''schema'' = map_option Str (truthy (private_env environ ''SNOW_SCHEMA''))"
    and "map_of kw ''role'' = map_option Str (truthy (private_env environ ''SNOW_ROLE''))"
    and "truthy (private_env environ ''SNOW_PRIVATE_KEY'') = None \<Longrightarrow> map_of kw ''private_key'' = None"
    and "map_of kw ''password'' =
           (if truthy (private_env environ ''SNOW_PRIVATE_KEY'') = None
            then map_option Str (truthy (private_env environ ''SNOW_PWD'')) else None)"
  using connects_get_snowflake_conn_cases [OF assms]
  by (auto simp add: update_conv' map_of_with_optionals)

text \<open>The optional entries of a dictionary passed to connect, and its values.\<close>

lemma connect_optional_fields:
  assumes "kw \<in> set (connects (fst (get_snowflake_conn w environ)))"
  shows "(\<forall>(name, k) \<in> set [(''SNOW_WAREHOUSE'', ''warehouse''), (''SNOW_DATABASE'', ''database''),
                           (''SNOW_SCHEMA'', ''schema''), (''SNOW_ROLE'', ''role'')].
            (k \<in> fst ` set kw \<longleftrightarrow> truthy (private_env environ name) \<noteq> None) \<and>
            map_of kw k = map_option Str (truthy (private_env environ name))) \<and>
         (\<forall>k. map_of kw k \<noteq> Some (Str []))"
proof -
  from connects_get_snowflake_conn_cases [OF assms]
  obtain u a where u: "truthy (private_env environ ''SNOW_USER'') = Some u"
    and a: "truthy (private_env environ ''SNOW_ACCOUNT'') = Some a"
    and kw: "(\<exists>key. kw = AList.update ''private_key'' (PKey key)
               (with_optionals environ [(''user'', Str u), (''account'', Str a)])) \<or>
     (\<exists>p. truthy (private_env environ ''SNOW_PWD'') = Some p \<and>
        kw = AList.update ''password'' (Str p)
               (with_optionals environ [(''user'', Str u), (''account'', Str a)]))"
    by blast
  have ne: "u \<noteq> []" "a \<noteq> []" using u a by (simp_all add: truthy_nonempty)
  have vals: "map_of kw ''warehouse'' = map_option Str (truthy (private_env environ ''SNOW_WAREHOUSE''))"
    "map_of kw ''database'' = map_option Str (truthy (private_env environ ''SNOW_DATABASE''))"
    "map_of kw ''schema'' = map_option Str (truthy (private_env environ ''SNOW_SCHEMA''))"
    "map_of kw ''role'' = map_option Str (truthy (private_env environ ''SNOW_ROLE''))"
    using kw by (auto simp add: update_conv' map_of_with_optionals)
  have keys: "\<And>k. k \<in> fst ` set kw \<longleftrightarrow> map_of kw k \<noteq> None"
    by (simp add: map_of_eq_None_iff)
  have base: "(k, Str []) \<notin> set (with_optionals environ [(''user'', Str u), (''account'', Str a)])" for k
    by (rule with_optionals_nonempty) (use ne in auto)
  have "(k, Str []) \<notin> set kw" for k
    using kw
  proof (elim disjE exE conjE)
    fix key
    assume "kw = AList.update ''private_key'' (PKey key)
        (with_optionals environ [(''user'', Str u), (''account'', Str a)])"
    then show ?thesis
      using base [of k] update_values [of k "Str []" "''private_key''" "PKey key"
          "with_optionals environ [(''user'', Str u), (''account'', Str a)]"]
      by auto
  next
    fix p
    assume p: "truthy (private_env environ ''SNOW_PWD'') = Some p"
      and "kw = AList.update ''password'' (Str p)
        (with_optionals environ [(''user'', Str u), (''account'', Str a)])"
    moreover from p have "p \<noteq> []" by (rule truthy_nonempty)
    ultimately show ?thesis
      using base [of k] update_values [of k "Str []" "''password''" "Str p"
          "with_optionals environ [(''user'', Str u), (''account'', Str a)]"]
      by auto
  qed
  then have nonempty: "\<forall>k. map_of kw k \<noteq> Some (Str [])"
    by (auto dest: map_of_SomeD)
  show ?thesis using nonempty by (simp add: keys vals del: map_of_eq_None_iff)
qed

subsection \<open>The steps of the query runner\<close>

lemma run_query_no_connection:
  assumes "get_snowflake_conn w environ = (t, Inl e)"
  shows "run_query w environ query = (t, Inl e)"
  using assms by (simp add: run_query_def io_bind_def)

lemma run_query_no_cursor:
  assumes "get_snowflake_conn w environ = (t, Inr conn)" and "conn_cursor conn = Inl e"
  shows "run_query w environ query =
     (t @ [ConnCursor, ConnClose], Inl (case conn_close conn of None \<Rightarrow> e | Some e' \<Rightarrow> e'))"
  using assms
  by (simp add: run_query_def io_bind_def try_finally_def call_def call_unit_def
      split: option.splits)

lemma run_query_with_cursor:
  assumes "get_snowflake_conn w environ = (t, Inr conn)" and "conn_cursor conn = Inr cur"
  shows "run_query w environ query =
     (t @ [ConnCursor, CurExecute query] @
        (if cur_execute cur query = None then [CurFetchall] else []) @ [CurClose, ConnClose],
      case conn_close conn of
        Some e \<Rightarrow> Inl e
      | None \<Rightarrow>
          (case cur_close cur of
             Some e \<Rightarrow> Inl e
           | None \<Rightarrow>
               (case cur_execute cur query of
                  Some e \<Rightarrow> Inl e
                | None \<Rightarrow> cur_fetchall cur query)))"
  using assms
  by (simp add: run_query_def io_bind_def try_finally_def call_def call_unit_def
      split: option.splits sum.splits)

lemma factory_event_reads:
  "list_all factory_event (private_env_reads environ name)"
  "list_all factory_event (required_reads environ)"
  "list_all factory_event (optional_reads environ)"
  by (simp_all add: private_env_reads_def required_reads_def optional_reads_def factory_event_def
      split: option.splits)

lemma factory_event_add_auth: "list_all factory_event (fst (add_auth w pwd pem kw))"
  by (simp add: add_auth_def encode_def io_raise_def io_return_def io_bind_def call_def
      factory_event_def split: option.splits sum.splits)

lemma factory_events: "list_all factory_event (fst (get_snowflake_conn w environ))"
proof (cases "snowflake w")
  case None
  then show ?thesis by (simp add: get_snowflake_conn_no_driver)
next
  case (Some c)
  show ?thesis
  proof (cases "truthy (private_env environ ''SNOW_USER'') = None \<or>
                truthy (private_env environ ''SNOW_ACCOUNT'') = None")
    case True
    with Some show ?thesis by (simp add: get_snowflake_conn_missing factory_event_reads)
  next
    case False
    then obtain u a where ua: "truthy (private_env environ ''SNOW_USER'') = Some u"
      "truthy (private_env environ ''SNOW_ACCOUNT'') = Some a" by auto
    obtain t r where aa: "add_auth w (private_env environ ''SNOW_PWD'')
        (private_env environ ''SNOW_PRIVATE_KEY'')
        (with_optionals environ [(''user'', Str u), (''account'', Str a)]) = (t, r)"
      by (cases "add_auth w (private_env environ ''SNOW_PWD'')
        (private_env environ ''SNOW_PRIVATE_KEY'')
        (with_optionals environ [(''user'', Str u), (''account'', Str a)])") blast
    have "list_all factory_event t"
      using factory_event_add_auth [of w "private_env environ ''SNOW_PWD''"
          "private_env environ ''SNOW_PRIVATE_KEY''"
          "with_optionals environ [(''user'', Str u), (''account'', Str a)]"]
      by (simp add: aa)
    then show ?thesis
      by (cases r)
        (simp_all add: get_snowflake_conn_configured [OF Some ua] aa factory_event_reads
          factory_event_def)
  qed
qed

lemma factory_trace_counts:
  assumes "list_all factory_event t"
  shows "executes t = []" and "count_list t CurClose = 0" and "count_list t ConnClose = 0"
    and "CurClose \<notin> set t" and "ConnClose \<notin> set t"
  using assms
  by (induction t) (auto simp add: executes_def factory_event_def split: event.splits)

lemma executes_simps:
  "executes [] = []"
  "executes (EnvGet n # t) = executes t"
  "executes (LoadPem p # t) = executes t"
  "executes (Connect kw # t) = executes t"
  "executes (ConnCursor # t) = executes t"
  "executes (CurExecute q # t) = q # executes t"
  "executes (CurFetchall # t) = executes t"
  "executes (CurClose # t) = executes t"
  "executes (ConnClose # t) = executes t"
  "executes (t @ t') = executes t @ executes t'"
  by (simp_all add: executes_def)

subsection \<open>The example collaborators\<close>

lemma example_resolved:
  "private_env example_environ ''SNOW_USER'' = Some ''alice''"
  "private_env example_environ ''SNOW_ACCOUNT'' = Some ''xy123''"
  "private_env example_environ ''SNOW_PWD'' = Some ''secret''"
  "private_env example_environ ''SNOW_PRIVATE_KEY'' = None"
  "private_env example_environ ''SNOW_WAREHOUSE'' = None"
  "private_env example_environ ''SNOW_DATABASE'' = None"
  "private_env example_environ ''SNOW_SCHEMA'' = None"
  "private_env example_environ ''SNOW_ROLE'' = None"
  by (simp_all add: private_env_def example_environ_def truthy_def lower_names)

lemma truthy_simps:
  "truthy None = None"
  "truthy (Some []) = None"
  "truthy (Some (c # s)) = Some (c # s)"
  by (simp_all add: truthy_def)

lemma example_factory:
  "snd (get_snowflake_conn (example_world conn) example_environ) = Inr conn"
proof -
  have c: "snowflake (example_world conn) = Some (\<lambda>conn_kwargs. Inr conn)"
    by (simp add: example_world_def)
  show ?thesis
    by (simp add: snd_get_snowflake_conn_configured [OF c, of example_environ "''alice''" "''xy123''"]
        example_resolved truthy_simps add_auth_cases)
qed

subsection \<open>Missing driver\<close>

text \<open>
  C8. When the driver library is not installed (\<open>snowflake\<close> is \<open>None\<close>), the connection
  factory raises its error at once: the trace is empty, so no environment variable was
  read and no connect was tried, whatever the environment holds. The query runner hands
  the same error to its caller, again with nothing done and nothing tried twice.
\<close>

theorem missing_driver_fails_first:
  assumes "snowflake w = None"
  shows "get_snowflake_conn w environ =
           ([], Inl (RuntimeError ''snowflake-connector-python is not installed'')) \<and>
         run_query w environ query =
           ([], Inl (RuntimeError ''snowflake-connector-python is not installed''))"
  using assms by (simp add: run_query_def get_snowflake_conn_def io_raise_def io_bind_def)

theorem missing_driver_fails_first_witness:
  "snowflake (\<lparr>snowflake = None, serialization = None\<rparr> :: (unit, unit, unit) world) = None \<and>
   get_snowflake_conn (\<lparr>snowflake = None, serialization = None\<rparr> :: (unit, unit, unit) world)
       [''SNOW_USER'' \<mapsto> ''alice''] =
     ([], Inl (RuntimeError ''snowflake-connector-python is not installed'')) \<and>
   run_query (\<lparr>snowflake = None, serialization = None\<rparr> :: (unit, unit, unit) world)
       [''SNOW_USER'' \<mapsto> ''alice''] ''SELECT 1'' =
     ([], Inl (RuntimeError ''snowflake-connector-python is not installed''))"
proof -
  have h: "snowflake (\<lparr>snowflake = None, serialization = None\<rparr> :: (unit, unit, unit) world) = None"
    by simp
  from missing_driver_fails_first [OF h] h show ?thesis by blast
qed

subsection \<open>Missing configuration\<close>

text \<open>
  C1. A value is missing when the resolver finds no non-empty string for it. If the user
  is missing, or the account is missing, or both the password and the private key are
  missing, the connection factory raises a \<open>RuntimeError\<close> carrying a configuration
  message (which one is stated), and no connect call is in the trace: the driver is
  never asked to open a connection.
\<close>

theorem missing_configuration_fails_before_connect:
  assumes "truthy (private_env environ ''SNOW_USER'') = None \<or>
           truthy (private_env environ ''SNOW_ACCOUNT'') = None \<or>
           (truthy (private_env environ ''SNOW_PWD'') = None \<and>
            truthy (private_env environ ''SNOW_PRIVATE_KEY'') = None)"
  shows "snd (get_snowflake_conn w environ) =
           Inl (RuntimeError
             (if snowflake w = None then ''snowflake-connector-python is not installed''
              else if truthy (private_env environ ''SNOW_USER'') = None \<or>
                      truthy (private_env environ ''SNOW_ACCOUNT'') = None
                then ''Missing SNOW_USER or SNOW_ACCOUNT environment variables''
              else ''Provide SNOW_PWD or SNOW_PRIVATE_KEY for authentication'')) \<and>
         (\<forall>kw. Connect kw \<notin> set (fst (get_snowflake_conn w environ)))"
proof (cases "snowflake w")
  case None
  then show ?thesis by (simp add: get_snowflake_conn_no_driver)
next
  case (Some c)
  show ?thesis
  proof (cases "truthy (private_env environ ''SNOW_USER'') = None \<or>
                truthy (private_env environ ''SNOW_ACCOUNT'') = None")
    case True
    have "\<forall>kw. kw \<notin> set (connects (fst (get_snowflake_conn w environ)))"
      using Some True by (simp add: get_snowflake_conn_missing connects_reads)
    with Some True show ?thesis
      by (simp add: get_snowflake_conn_missing set_connects)
  next
    case False
    then obtain u a where ua: "truthy (private_env environ ''SNOW_USER'') = Some u"
      "truthy (private_env environ ''SNOW_ACCOUNT'') = Some a" by auto
    from False assms have noauth: "truthy (private_env environ ''SNOW_PRIVATE_KEY'') = None"
      "truthy (private_env environ ''SNOW_PWD'') = None" by auto
    have "\<forall>kw. kw \<notin> set (connects (fst (get_snowflake_conn w environ)))"
      using Some ua noauth by (simp add: connects_get_snowflake_conn add_auth_cases)
    moreover have "snd (get_snowflake_conn w environ) =
        Inl (RuntimeError ''Provide SNOW_PWD or SNOW_PRIVATE_KEY for authentication'')"
      using noauth by (simp add: snd_get_snowflake_conn_configured [OF Some ua] add_auth_cases)
    ultimately show ?thesis using Some ua by (simp add: set_connects)
  qed
qed

theorem missing_configuration_fails_before_connect_witness:
  "truthy (private_env [''SNOW_USER'' \<mapsto> ''alice'', ''SNOW_PWD'' \<mapsto> ''secret''] ''SNOW_ACCOUNT'') = None \<and>
   snd (get_snowflake_conn (example_world (example_connection example_cursor))
          [''SNOW_USER'' \<mapsto> ''alice'', ''SNOW_PWD'' \<mapsto> ''secret'']) =
     Inl (RuntimeError ''Missing SNOW_USER or SNOW_ACCOUNT environment variables'') \<and>
   (\<forall>kw. Connect kw \<notin> set (fst (get_snowflake_conn (example_world (example_connection example_cursor))
          [''SNOW_USER'' \<mapsto> ''alice'', ''SNOW_PWD'' \<mapsto> ''secret''])))"
proof -
  let ?environ = "[''SNOW_USER'' \<mapsto> ''alice'', ''SNOW_PWD'' \<mapsto> ''secret'']"
  have a: "truthy (private_env ?environ ''SNOW_ACCOUNT'') = None"
    by (simp add: private_env_def truthy_def lower_names)
  then have h: "truthy (private_env ?environ ''SNOW_USER'') = None \<or>
           truthy (private_env ?environ ''SNOW_ACCOUNT'') = None \<or>
           (truthy (private_env ?environ ''SNOW_PWD'') = None \<and>
            truthy (private_env ?environ ''SNOW_PRIVATE_KEY'') = None)"
    by simp
  have d: "snowflake (example_world (example_connection example_cursor)) \<noteq> None"
    by (simp add: example_world_def)
  from missing_configuration_fails_before_connect
    [OF h, of "example_world (example_connection example_cursor)"] a d
  show ?thesis by simp
qed

subsection \<open>The authentication mode\<close>

text \<open>
  C3. A private key or a password is present when the resolver finds a non-empty string
  for it. When both are present, every dictionary of keyword arguments handed to the
  driver's connect has a \<open>private_key\<close> entry and no \<open>password\<close> entry. The second
  part shows that the connect call is really made: with the driver and the cryptography
  library installed, user and account present and a key that is well-formed UTF-8 (so
  that \<open>encode\<close> returns) and parses, the factory calls connect once, with such a
  dictionary, and returns what connect returns.
\<close>

theorem key_pair_takes_precedence:
  assumes "truthy (private_env environ ''SNOW_PRIVATE_KEY'') = Some pem"
    and "truthy (private_env environ ''SNOW_PWD'') = Some pwd"
  shows "(\<forall>kw \<in> set (connects (fst (get_snowflake_conn w environ))).
            (\<exists>key. map_of kw ''private_key'' = Some (PKey key)) \<and>
            map_of kw ''password'' = None) \<and>
         (snowflake w = Some c \<and>
          truthy (private_env environ ''SNOW_USER'') = Some u \<and>
          truthy (private_env environ ''SNOW_ACCOUNT'') = Some a \<and>
          serialization w = Some load \<and> valid_utf8 pem \<and> load pem = Inr key \<longrightarrow>
          (\<exists>kw. connects (fst (get_snowflake_conn w environ)) = [kw] \<and>
                map_of kw ''private_key'' = Some (PKey key) \<and>
                map_of kw ''password'' = None \<and>
                snd (get_snowflake_conn w environ) = c kw))"
proof (intro conjI ballI impI)
  fix kw assume "kw \<in> set (connects (fst (get_snowflake_conn w environ)))"
  from connects_get_snowflake_conn_cases [OF this] assms(1)
  obtain u a key where
    kw: "kw = AList.update ''private_key'' (PKey key)
               (with_optionals environ [(''user'', Str u), (''account'', Str a)])"
    by auto
  show "\<exists>key. map_of kw ''private_key'' = Some (PKey key)"
    by (simp add: kw update_conv')
  show "map_of kw ''password'' = None"
    by (simp add: kw update_conv' map_of_with_optionals)
next
  assume h: "snowflake w = Some c \<and>
          truthy (private_env environ ''SNOW_USER'') = Some u \<and>
          truthy (private_env environ ''SNOW_ACCOUNT'') = Some a \<and>
          serialization w = Some load \<and> valid_utf8 pem \<and> load pem = Inr key"
  let ?kw = "AList.update ''private_key'' (PKey key)
               (with_optionals environ [(''user'', Str u), (''account'', Str a)])"
  from h assms(1)
  have aa: "add_auth w (private_env environ ''SNOW_PWD'') (private_env environ ''SNOW_PRIVATE_KEY'')
          (with_optionals environ [(''user'', Str u), (''account'', Str a)]) = ([LoadPem pem], Inr ?kw)"
    by (simp add: add_auth_cases)
  have "connects (fst (get_snowflake_conn w environ)) = [?kw]"
    using h by (simp add: connects_get_snowflake_conn aa)
  moreover have "snd (get_snowflake_conn w environ) = c ?kw"
    using h by (simp add: snd_get_snowflake_conn_configured aa)
  moreover have "map_of ?kw ''private_key'' = Some (PKey key)"
    by (simp add: update_conv')
  moreover have "map_of ?kw ''password'' = None"
    by (simp add: update_conv' map_of_with_optionals)
  ultimately show "\<exists>kw. connects (fst (get_snowflake_conn w environ)) = [kw] \<and>
                map_of kw ''private_key'' = Some (PKey key) \<and>
                map_of kw ''password'' = None \<and>
                snd (get_snowflake_conn w environ) = c kw"
    by blast
qed

theorem key_pair_takes_precedence_witness:
  "truthy (private_env (example_environ(''SNOW_PRIVATE_KEY'' \<mapsto> ''PEM'')) ''SNOW_PRIVATE_KEY'') = Some ''PEM'' \<and>
   truthy (private_env (example_environ(''SNOW_PRIVATE_KEY'' \<mapsto> ''PEM'')) ''SNOW_PWD'') = Some ''secret'' \<and>
   (\<exists>kw. connects (fst (get_snowflake_conn (example_world (example_connection example_cursor))
                          (example_environ(''SNOW_PRIVATE_KEY'' \<mapsto> ''PEM'')))) = [kw] \<and>
         map_of kw ''private_key'' = Some (PKey ''PEM'') \<and>
         map_of kw ''password'' = None \<and>
         snd (get_snowflake_conn (example_world (example_connection example_cursor))
                (example_environ(''SNOW_PRIVATE_KEY'' \<mapsto> ''PEM''))) =
           Inr (example_connection example_cursor))"
proof -
  let ?environ = "example_environ(''SNOW_PRIVATE_KEY'' \<mapsto> ''PEM'')"
  let ?w = "example_world (example_connection example_cursor)"
  have h1: "truthy (private_env ?environ ''SNOW_PRIVATE_KEY'') = Some ''PEM''"
    by (simp add: private_env_def truthy_def example_environ_def)
  have h2: "truthy (private_env ?environ ''SNOW_PWD'') = Some ''secret''"
    by (simp add: private_env_def truthy_def example_environ_def)
  have h3: "snowflake ?w = Some (\<lambda>conn_kwargs. Inr (example_connection example_cursor)) \<and>
          truthy (private_env ?environ ''SNOW_USER'') = Some ''alice'' \<and>
          truthy (private_env ?environ ''SNOW_ACCOUNT'') = Some ''xy123'' \<and>
          serialization ?w = Some (\<lambda>pem. Inr pem) \<and> valid_utf8 ''PEM'' \<and>
          (\<lambda>pem. Inr pem) ''PEM'' = Inr ''PEM''"
    by (simp add: private_env_def truthy_def example_environ_def example_world_def
        valid_utf8_PEM del: valid_utf8.simps)
  from key_pair_takes_precedence [OF h1 h2, of ?w
      "\<lambda>conn_kwargs. Inr (example_connection example_cursor)" "''alice''" "''xy123''"
      "\<lambda>pem. Inr pem" "''PEM''"] h3
  have "\<exists>kw. connects (fst (get_snowflake_conn ?w ?environ)) = [kw] \<and>
         map_of kw ''private_key'' = Some (PKey ''PEM'') \<and>
         map_of kw ''password'' = None \<and>
         snd (get_snowflake_conn ?w ?environ) = Inr (example_connection example_cursor)"
    by blast
  with h1 h2 show ?thesis by blast
qed

subsection \<open>The optional fields\<close>

text \<open>
  C5. An optional variable resolves to a present value when the resolver finds a
  non-empty string for it. In every dictionary handed to the driver's connect, each of
  \<open>warehouse\<close>, \<open>database\<close>, \<open>schema\<close> and \<open>role\<close> is a key if and only if its variable
  resolves to a present value, and its entry is then that value; otherwise the key is
  not there at all. No entry of the dictionary is the empty string. And such a
  dictionary is really handed over, whatever optional variables are set: with the
  driver installed, user and account present, and either a password and no key or a
  key that encodes and parses, the factory calls connect exactly once, with a
  dictionary of this kind, and returns what connect returns.
\<close>

theorem optional_fields_only_when_present:
  "(\<forall>kw \<in> set (connects (fst (get_snowflake_conn w environ))).
      (\<forall>(name, k) \<in> set [(''SNOW_WAREHOUSE'', ''warehouse''), (''SNOW_DATABASE'', ''database''),
                          (''SNOW_SCHEMA'', ''schema''), (''SNOW_ROLE'', ''role'')].
         (k \<in> fst ` set kw \<longleftrightarrow> truthy (private_env environ name) \<noteq> None) \<and>
         map_of kw k = map_option Str (truthy (private_env environ name))) \<and>
      (\<forall>k. map_of kw k \<noteq> Some (Str []))) \<and>
   (snowflake w = Some c \<and>
    truthy (private_env environ ''SNOW_USER'') = Some u \<and>
    truthy (private_env environ ''SNOW_ACCOUNT'') = Some a \<and>
    (truthy (private_env environ ''SNOW_PRIVATE_KEY'') = None \<and>
     truthy (private_env environ ''SNOW_PWD'') = Some p \<or>
     truthy (private_env environ ''SNOW_PRIVATE_KEY'') = Some pem \<and>
     serialization w = Some load \<and> valid_utf8 pem \<and> load pem = Inr key) \<longrightarrow>
    (\<exists>kw. connects (fst (get_snowflake_conn w environ)) = [kw] \<and>
          snd (get_snowflake_conn w environ) = c kw \<and>
          (\<forall>(name, k) \<in> set [(''SNOW_WAREHOUSE'', ''warehouse''), (''SNOW_DATABASE'', ''database''),
                              (''SNOW_SCHEMA'', ''schema''), (''SNOW_ROLE'', ''role'')].
             (k \<in> fst ` set kw \<longleftrightarrow> truthy (private_env environ name) \<noteq> None) \<and>
             map_of kw k = map_option Str (truthy (private_env environ name)))))"
proof (rule conjI)
  show "\<forall>kw \<in> set (connects (fst (get_snowflake_conn w environ))).
      (\<forall>(name, k) \<in> set [(''SNOW_WAREHOUSE'', ''warehouse''), (''SNOW_DATABASE'', ''database''),
                          (''SNOW_SCHEMA'', ''schema''), (''SNOW_ROLE'', ''role'')].
         (k \<in> fst ` set kw \<longleftrightarrow> truthy (private_env environ name) \<noteq> None) \<and>
         map_of kw k = map_option Str (truthy (private_env environ name))) \<and>
      (\<forall>k. map_of kw k \<noteq> Some (Str []))"
    by (rule ballI) (rule connect_optional_fields)
next
  show "snowflake w = Some c \<and>
    truthy (private_env environ ''SNOW_USER'') = Some u \<and>
    truthy (private_env environ ''SNOW_ACCOUNT'') = Some a \<and>
    (truthy (private_env environ ''SNOW_PRIVATE_KEY'') = None \<and>
     truthy (private_env environ ''SNOW_PWD'') = Some p \<or>
     truthy (private_env environ ''SNOW_PRIVATE_KEY'') = Some pem \<and>
     serialization w = Some load \<and> valid_utf8 pem \<and> load pem = Inr key) \<longrightarrow>
    (\<exists>kw. connects (fst (get_snowflake_conn w environ)) = [kw] \<and>
          snd (get_snowflake_conn w environ) = c kw \<and>
          (\<forall>(name, k) \<in> set [(''SNOW_WAREHOUSE'', ''warehouse''), (''SNOW_DATABASE'', ''database''),
                              (''SNOW_SCHEMA'', ''schema''), (''SNOW_ROLE'', ''role'')].
             (k \<in> fst ` set kw \<longleftrightarrow> truthy (private_env environ name) \<noteq> None) \<and>
             map_of kw k = map_option Str (truthy (private_env environ name))))"
  proof (rule impI)
  assume h: "snowflake w = Some c \<and>
    truthy (private_env environ ''SNOW_USER'') = Some u \<and>
    truthy (private_env environ ''SNOW_ACCOUNT'') = Some a \<and>
    (truthy (private_env environ ''SNOW_PRIVATE_KEY'') = None \<and>
     truthy (private_env environ ''SNOW_PWD'') = Some p \<or>
     truthy (private_env environ ''SNOW_PRIVATE_KEY'') = Some pem \<and>
     serialization w = Some load \<and> valid_utf8 pem \<and> load pem = Inr key)"
  let ?base = "with_optionals environ [(''user'', Str u), (''account'', Str a)]"
  from h obtain t kw where aa:
    "add_auth w (private_env environ ''SNOW_PWD'') (private_env environ ''SNOW_PRIVATE_KEY'')
       ?base = (t, Inr kw)"
    by (auto simp add: add_auth_cases)
  have c1: "connects (fst (get_snowflake_conn w environ)) = [kw]"
    using h by (simp add: connects_get_snowflake_conn aa)
  have c2: "snd (get_snowflake_conn w environ) = c kw"
    using h by (simp add: snd_get_snowflake_conn_configured aa)
  have "kw \<in> set (connects (fst (get_snowflake_conn w environ)))"
    by (simp add: c1)
  from c1 c2 conjunct1 [OF connect_optional_fields [OF this]]
  have "connects (fst (get_snowflake_conn w environ)) = [kw] \<and>
          snd (get_snowflake_conn w environ) = c kw \<and>
          (\<forall>(name, k) \<in> set [(''SNOW_WAREHOUSE'', ''warehouse''), (''SNOW_DATABASE'', ''database''),
                              (''SNOW_SCHEMA'', ''schema''), (''SNOW_ROLE'', ''role'')].
             (k \<in> fst ` set kw \<longleftrightarrow> truthy (private_env environ name) \<noteq> None) \<and>
             map_of kw k = map_option Str (truthy (private_env environ name)))"
    by (intro conjI)
  then show "\<exists>kw. connects (fst (get_snowflake_conn w environ)) = [kw] \<and>
          snd (get_snowflake_conn w environ) = c kw \<and>
          (\<forall>(name, k) \<in> set [(''SNOW_WAREHOUSE'', ''warehouse''), (''SNOW_DATABASE'', ''database''),
                              (''SNOW_SCHEMA'', ''schema''), (''SNOW_ROLE'', ''role'')].
             (k \<in> fst ` set kw \<longleftrightarrow> truthy (private_env environ name) \<noteq> None) \<and>
             map_of kw k = map_option Str (truthy (private_env environ name)))"
    by (rule exI)
  qed
qed

theorem optional_fields_only_when_present_witness:
  "snowflake (example_world (example_connection example_cursor)) =
     Some (\<lambda>conn_kwargs. Inr (example_connection example_cursor)) \<and>
   truthy (private_env (example_environ(''SNOW_WAREHOUSE'' \<mapsto> ''wh'', ''SNOW_DATABASE'' \<mapsto> ''db'',
      ''SNOW_SCHEMA'' \<mapsto> ''sc'', ''SNOW_ROLE'' \<mapsto> ''ro'')) ''SNOW_PRIVATE_KEY'') = None \<and>
   truthy (private_env (example_environ(''SNOW_WAREHOUSE'' \<mapsto> ''wh'', ''SNOW_DATABASE'' \<mapsto> ''db'',
      ''SNOW_SCHEMA'' \<mapsto> ''sc'', ''SNOW_ROLE'' \<mapsto> ''ro'')) ''SNOW_PWD'') = Some ''secret'' \<and>
   (\<exists>kw. connects (fst (get_snowflake_conn (example_world (example_connection example_cursor))
            (example_environ(''SNOW_WAREHOUSE'' \<mapsto> ''wh'', ''SNOW_DATABASE'' \<mapsto> ''db'',
               ''SNOW_SCHEMA'' \<mapsto> ''sc'', ''SNOW_ROLE'' \<mapsto> ''ro'')))) = [kw] \<and>
         snd (get_snowflake_conn (example_world (example_connection example_cursor))
            (example_environ(''SNOW_WAREHOUSE'' \<mapsto> ''wh'', ''SNOW_DATABASE'' \<mapsto> ''db'',
               ''SNOW_SCHEMA'' \<mapsto> ''sc'', ''SNOW_ROLE'' \<mapsto> ''ro''))) =
           Inr (example_connection example_cursor) \<and>
         map_of kw ''warehouse'' = Some (Str ''wh'') \<and>
         map_of kw ''database'' = Some (Str ''db'') \<and>
         map_of kw ''schema'' = Some (Str ''sc'') \<and>
         map_of kw ''role'' = Some (Str ''ro'') \<and>
         ''database'' \<in> fst ` set kw \<and> ''schema'' \<in> fst ` set kw \<and> ''role'' \<in> fst ` set kw) \<and>
   (\<exists>kw. connects (fst (get_snowflake_conn (example_world (example_connection example_cursor))
            (example_environ(''SNOW_WAREHOUSE'' \<mapsto> ''wh'', ''SNOW_ROLE'' \<mapsto> [])))) = [kw] \<and>
         map_of kw ''warehouse'' = Some (Str ''wh'') \<and>
         map_of kw ''role'' = None \<and>
         ''role'' \<notin> fst ` set kw \<and> ''database'' \<notin> fst ` set kw \<and> ''schema'' \<notin> fst ` set kw)"
proof -
  let ?e4 = "example_environ(''SNOW_WAREHOUSE'' \<mapsto> ''wh'', ''SNOW_DATABASE'' \<mapsto> ''db'',
      ''SNOW_SCHEMA'' \<mapsto> ''sc'', ''SNOW_ROLE'' \<mapsto> ''ro'')"
  let ?e1 = "example_environ(''SNOW_WAREHOUSE'' \<mapsto> ''wh'', ''SNOW_ROLE'' \<mapsto> [])"
  let ?conn = "example_connection example_cursor"
  let ?w = "example_world ?conn"
  let ?names = "[(''SNOW_WAREHOUSE'', ''warehouse''), (''SNOW_DATABASE'', ''database''),
                 (''SNOW_SCHEMA'', ''schema''), (''SNOW_ROLE'', ''role'')]"
  have w: "snowflake ?w = Some (\<lambda>conn_kwargs. Inr ?conn)"
    by (simp add: example_world_def)
  have r4: "private_env ?e4 ''SNOW_USER'' = Some ''alice''"
    "private_env ?e4 ''SNOW_ACCOUNT'' = Some ''xy123''"
    "private_env ?e4 ''SNOW_PWD'' = Some ''secret''"
    "private_env ?e4 ''SNOW_PRIVATE_KEY'' = None"
    "private_env ?e4 ''SNOW_WAREHOUSE'' = Some ''wh''"
    "private_env ?e4 ''SNOW_DATABASE'' = Some ''db''"
    "private_env ?e4 ''SNOW_SCHEMA'' = Some ''sc''"
    "private_env ?e4 ''SNOW_ROLE'' = Some ''ro''"
    by (simp_all add: private_env_def example_environ_def truthy_def lower_names)
  have r1: "private_env ?e1 ''SNOW_USER'' = Some ''alice''"
    "private_env ?e1 ''SNOW_ACCOUNT'' = Some ''xy123''"
    "private_env ?e1 ''SNOW_PWD'' = Some ''secret''"
    "private_env ?e1 ''SNOW_PRIVATE_KEY'' = None"
    "private_env ?e1 ''SNOW_WAREHOUSE'' = Some ''wh''"
    "private_env ?e1 ''SNOW_DATABASE'' = None"
    "private_env ?e1 ''SNOW_SCHEMA'' = None"
    "private_env ?e1 ''SNOW_ROLE'' = None"
    by (simp_all add: private_env_def example_environ_def truthy_def lower_names)
  have h4: "snowflake ?w = Some (\<lambda>conn_kwargs. Inr ?conn) \<and>
    truthy (private_env ?e4 ''SNOW_USER'') = Some ''alice'' \<and>
    truthy (private_env ?e4 ''SNOW_ACCOUNT'') = Some ''xy123'' \<and>
    (truthy (private_env ?e4 ''SNOW_PRIVATE_KEY'') = None \<and>
     truthy (private_env ?e4 ''SNOW_PWD'') = Some ''secret'' \<or>
     truthy (private_env ?e4 ''SNOW_PRIVATE_KEY'') = Some [] \<and>
     serialization ?w = Some (\<lambda>pem. Inr pem) \<and> valid_utf8 [] \<and> (\<lambda>pem. Inr pem) [] = Inr [])"
    by (simp add: w r4 truthy_simps)
  have h1: "snowflake ?w = Some (\<lambda>conn_kwargs. Inr ?conn) \<and>
    truthy (private_env ?e1 ''SNOW_USER'') = Some ''alice'' \<and>
    truthy (private_env ?e1 ''SNOW_ACCOUNT'') = Some ''xy123'' \<and>
    (truthy (private_env ?e1 ''SNOW_PRIVATE_KEY'') = None \<and>
     truthy (private_env ?e1 ''SNOW_PWD'') = Some ''secret'' \<or>
     truthy (private_env ?e1 ''SNOW_PRIVATE_KEY'') = Some [] \<and>
     serialization ?w = Some (\<lambda>pem. Inr pem) \<and> valid_utf8 [] \<and> (\<lambda>pem. Inr pem) [] = Inr [])"
    by (simp add: w r1 truthy_simps)
  have "\<exists>kw. connects (fst (get_snowflake_conn ?w ?e4)) = [kw] \<and>
      snd (get_snowflake_conn ?w ?e4) = Inr ?conn \<and>
      (\<forall>(name, k) \<in> set ?names.
         (k \<in> fst ` set kw \<longleftrightarrow> truthy (private_env ?e4 name) \<noteq> None) \<and>
         map_of kw k = map_option Str (truthy (private_env ?e4 name)))"
    by (rule mp [OF conjunct2 [OF optional_fields_only_when_present
      [of ?w ?e4 "\<lambda>conn_kwargs. Inr ?conn" "''alice''" "''xy123''" "''secret''" "[]"
        "\<lambda>pem. Inr pem" "[]"]] h4])
  then obtain kw4 where "connects (fst (get_snowflake_conn ?w ?e4)) = [kw4] \<and>
      snd (get_snowflake_conn ?w ?e4) = Inr ?conn \<and>
      (\<forall>(name, k) \<in> set ?names.
         (k \<in> fst ` set kw4 \<longleftrightarrow> truthy (private_env ?e4 name) \<noteq> None) \<and>
         map_of kw4 k = map_option Str (truthy (private_env ?e4 name)))" ..
  then have "connects (fst (get_snowflake_conn ?w ?e4)) = [kw4] \<and>
         snd (get_snowflake_conn ?w ?e4) = Inr ?conn \<and>
         map_of kw4 ''warehouse'' = Some (Str ''wh'') \<and>
         map_of kw4 ''database'' = Some (Str ''db'') \<and>
         map_of kw4 ''schema'' = Some (Str ''sc'') \<and>
         map_of kw4 ''role'' = Some (Str ''ro'') \<and>
         ''database'' \<in> fst ` set kw4 \<and> ''schema'' \<in> fst ` set kw4 \<and>
         ''role'' \<in> fst ` set kw4"
    by (simp add: r4 truthy_simps)
  then have E4: "\<exists>kw. connects (fst (get_snowflake_conn ?w ?e4)) = [kw] \<and>
         snd (get_snowflake_conn ?w ?e4) = Inr ?conn \<and>
         map_of kw ''warehouse'' = Some (Str ''wh'') \<and>
         map_of kw ''database'' = Some (Str ''db'') \<and>
         map_of kw ''schema'' = Some (Str ''sc'') \<and>
         map_of kw ''role'' = Some (Str ''ro'') \<and>
         ''database'' \<in> fst ` set kw \<and> ''schema'' \<in> fst ` set kw \<and> ''role'' \<in> fst ` set kw"
    by (rule exI)
  have "\<exists>kw. connects (fst (get_snowflake_conn ?w ?e1)) = [kw] \<and>
      snd (get_snowflake_conn ?w ?e1) = Inr ?conn \<and>
      (\<forall>(name, k) \<in> set ?names.
         (k \<in> fst ` set kw \<longleftrightarrow> truthy (private_env ?e1 name) \<noteq> None) \<and>
         map_of kw k = map_option Str (truthy (private_env ?e1 name)))"
    by (rule mp [OF conjunct2 [OF optional_fields_only_when_present
      [of ?w ?e1 "\<lambda>conn_kwargs. Inr ?conn" "''alice''" "''xy123''" "''secret''" "[]"
        "\<lambda>pem. Inr pem" "[]"]] h1])
  then obtain kw1 where "connects (fst (get_snowflake_conn ?w ?e1)) = [kw1] \<and>
      snd (get_snowflake_conn ?w ?e1) = Inr ?conn \<and>
      (\<forall>(name, k) \<in> set ?names.
         (k \<in> fst ` set kw1 \<longleftrightarrow> truthy (private_env ?e1 name) \<noteq> None) \<and>
         map_of kw1 k = map_option Str (truthy (private_env ?e1 name)))" ..
  then have "connects (fst (get_snowflake_conn ?w ?e1)) = [kw1] \<and>
         map_of kw1 ''warehouse'' = Some (Str ''wh'') \<and>
         map_of kw1 ''role'' = None \<and>
         ''role'' \<notin> fst ` set kw1 \<and> ''database'' \<notin> fst ` set kw1 \<and>
         ''schema'' \<notin> fst ` set kw1"
    by (simp add: r1 truthy_simps del: map_of_eq_None_iff)
  then have E1: "\<exists>kw. connects (fst (get_snowflake_conn ?w ?e1)) = [kw] \<and>
         map_of kw ''warehouse'' = Some (Str ''wh'') \<and>
         map_of kw ''role'' = None \<and>
         ''role'' \<notin> fst ` set kw \<and> ''database'' \<notin> fst ` set kw \<and> ''schema'' \<notin> fst ` set kw"
    by (rule exI)
  have p: "truthy (private_env ?e4 ''SNOW_PRIVATE_KEY'') = None"
    "truthy (private_env ?e4 ''SNOW_PWD'') = Some ''secret''"
    by (simp_all add: r4 truthy_simps)
  show ?thesis
    by (rule conjI [OF w conjI [OF p(1) conjI [OF p(2) conjI [OF E4 E1]]]])
qed

subsection \<open>The example of the specification\<close>

text \<open>
  C6. With \<open>SNOW_USER=alice\<close>, \<open>SNOW_ACCOUNT=xy123\<close> and \<open>SNOW_PWD=secret\<close> set and
  nothing else, and the driver installed, the connection factory calls the driver's
  connect exactly once, with exactly the keyword arguments \<open>user\<close>, \<open>account\<close> and
  \<open>password\<close> holding these values, and returns what that call returns.
\<close>

theorem example_connect_request:
  assumes "snowflake w = Some c"
  shows "connects (fst (get_snowflake_conn w example_environ)) =
           [[(''user'', Str ''alice''), (''account'', Str ''xy123''), (''password'', Str ''secret'')]] \<and>
         snd (get_snowflake_conn w example_environ) =
           c [(''user'', Str ''alice''), (''account'', Str ''xy123''), (''password'', Str ''secret'')]"
proof -
  have r: "private_env example_environ ''SNOW_USER'' = Some ''alice''"
    "private_env example_environ ''SNOW_ACCOUNT'' = Some ''xy123''"
    "private_env example_environ ''SNOW_PWD'' = Some ''secret''"
    "private_env example_environ ''SNOW_PRIVATE_KEY'' = None"
    "private_env example_environ ''SNOW_WAREHOUSE'' = None"
    "private_env example_environ ''SNOW_DATABASE'' = None"
    "private_env example_environ ''SNOW_SCHEMA'' = None"
    "private_env example_environ ''SNOW_ROLE'' = None"
    by (simp_all add: private_env_def example_environ_def truthy_def lower_names)
  have t: "truthy (Some ''alice'') = Some ''alice''" "truthy (Some ''xy123'') = Some ''xy123''"
    "truthy (Some ''secret'') = Some ''secret''" "truthy None = None"
    by (simp_all add: truthy_def)
  have o: "with_optionals example_environ kw = kw" for kw :: "'a kwargs"
    by (simp add: with_optionals_def put_opt_def r t)
  show ?thesis using assms
    by (simp add: connects_get_snowflake_conn snd_get_snowflake_conn_configured [OF assms]
        r t o add_auth_cases)
qed

theorem example_connect_request_witness:
  "snowflake (example_world (example_connection example_cursor)) =
     Some (\<lambda>conn_kwargs. Inr (example_connection example_cursor)) \<and>
   connects (fst (get_snowflake_conn (example_world (example_connection example_cursor))
       example_environ)) =
     [[(''user'', Str ''alice''), (''account'', Str ''xy123''), (''password'', Str ''secret'')]] \<and>
   snd (get_snowflake_conn (example_world (example_connection example_cursor)) example_environ) =
     Inr (example_connection example_cursor)"
proof -
  have h: "snowflake (example_world (example_connection example_cursor)) =
     Some (\<lambda>conn_kwargs. Inr (example_connection example_cursor))"
    by (simp add: example_world_def)
  from example_connect_request [OF h] h show ?thesis by simp
qed

subsection \<open>The resolver\<close>

text \<open>
  C4, as the claim states it, fails: the resolver falls back to the lower-cased name
  not only when the exact-case name is absent from the environment but also when it is
  set to the empty string, because \<open>or\<close> tests the truth of its first operand. With
  \<open>SNOW_USER\<close> set to the empty string and \<open>snow_user\<close> set to \<open>bob\<close>, both forms are
  set and the resolver returns \<open>bob\<close>, not the exact-case value; and the empty string set
  under the exact-case name alone resolves to nothing, while set under the lower-cased
  name alone it resolves to the empty string.
\<close>

theorem exact_case_empty_counterexample:
  "[''SNOW_USER'' \<mapsto> [], ''snow_user'' \<mapsto> ''bob''] ''SNOW_USER'' = Some [] \<and>
   [''SNOW_USER'' \<mapsto> [], ''snow_user'' \<mapsto> ''bob''] (lower ''SNOW_USER'') = Some ''bob'' \<and>
   private_env [''SNOW_USER'' \<mapsto> [], ''snow_user'' \<mapsto> ''bob''] ''SNOW_USER'' = Some ''bob'' \<and>
   private_env [''SNOW_USER'' \<mapsto> []] ''SNOW_USER'' = None \<and>
   private_env [lower ''SNOW_USER'' \<mapsto> []] ''SNOW_USER'' = Some []"
  by (simp add: private_env_def truthy_def lower_names)

text \<open>
  C4, amended. The resolver looks the key up first by its exact given name and makes the
  second lookup, by the lower-cased name, exactly when the first finds nothing or the
  empty string; it then returns what the second lookup finds. So an exact-case variable
  set to a non-empty string is returned whatever the lower-cased one holds, a key set
  only under its lower-cased name is returned from there, and a non-empty value set
  under only one of the two forms is returned either way.
\<close>

theorem resolver_lookup_order:
  "private_env environ name =
     (if truthy (environ name) = None then environ (lower name) else environ name) \<and>
   private_env_reads environ name =
     (if truthy (environ name) = None then [EnvGet name, EnvGet (lower name)]
      else [EnvGet name]) \<and>
   (environ name = Some v \<and> v \<noteq> [] \<longrightarrow> private_env environ name = Some v) \<and>
   (environ name = None \<and> environ (lower name) = Some v \<longrightarrow> private_env environ name = Some v) \<and>
   (v \<noteq> [] \<longrightarrow>
      private_env [name \<mapsto> v] name = Some v \<and> private_env [lower name \<mapsto> v] name = Some v)"
  by (auto simp add: private_env_def private_env_reads_def truthy_def split: option.splits)

theorem resolver_lookup_order_witness:
  "[''SNOW_USER'' \<mapsto> ''alice'', ''snow_user'' \<mapsto> ''bob''] ''SNOW_USER'' = Some ''alice'' \<and>
   ''alice'' \<noteq> [] \<and>
   private_env [''SNOW_USER'' \<mapsto> ''alice'', ''snow_user'' \<mapsto> ''bob''] ''SNOW_USER'' = Some ''alice'' \<and>
   [''snow_user'' \<mapsto> ''bob''] ''SNOW_USER'' = None \<and>
   [''snow_user'' \<mapsto> ''bob''] (lower ''SNOW_USER'') = Some ''bob'' \<and>
   private_env [''snow_user'' \<mapsto> ''bob''] ''SNOW_USER'' = Some ''bob'' \<and>
   private_env [''SNOW_USER'' \<mapsto> ''alice''] ''SNOW_USER'' = Some ''alice'' \<and>
   private_env [lower ''SNOW_USER'' \<mapsto> ''alice''] ''SNOW_USER'' = Some ''alice''"
proof -
  have a: "[''SNOW_USER'' \<mapsto> ''alice'', ''snow_user'' \<mapsto> ''bob''] ''SNOW_USER'' = Some ''alice'' \<and>
      ''alice'' \<noteq> []"
    by simp
  have b: "[''snow_user'' \<mapsto> ''bob''] ''SNOW_USER'' = None \<and>
      [''snow_user'' \<mapsto> ''bob''] (lower ''SNOW_USER'') = Some ''bob''"
    by (simp add: lower_names)
  from resolver_lookup_order
    [of "[''SNOW_USER'' \<mapsto> ''alice'', ''snow_user'' \<mapsto> ''bob'']" "''SNOW_USER''" "''alice''"] a
  have 1: "private_env [''SNOW_USER'' \<mapsto> ''alice'', ''snow_user'' \<mapsto> ''bob''] ''SNOW_USER'' =
      Some ''alice''"
    and 3: "private_env [''SNOW_USER'' \<mapsto> ''alice''] ''SNOW_USER'' = Some ''alice''"
      "private_env [lower ''SNOW_USER'' \<mapsto> ''alice''] ''SNOW_USER'' = Some ''alice''"
    by blast+
  from resolver_lookup_order [of "[''snow_user'' \<mapsto> ''bob'']" "''SNOW_USER''" "''bob''"] b
  have 2: "private_env [''snow_user'' \<mapsto> ''bob''] ''SNOW_USER'' = Some ''bob''"
    by blast
  from a b 1 2 3 show ?thesis by blast
qed

subsection \<open>The empty string\<close>

text \<open>
  C9. A variable set to the empty string is treated as a variable that is not set: for
  every name, the connection factory and the query runner do the same (same trace, same
  outcome) whether the name is bound to the empty string or unbound. For the resolver,
  an exact-case variable set to the empty string makes it return what the lower-cased
  name holds. In particular, when the lower-cased form supplies no value either: an
  empty \<open>SNOW_USER\<close> or \<open>SNOW_ACCOUNT\<close> ends in the missing-configuration error (with
  the driver installed); an empty \<open>SNOW_PRIVATE_KEY\<close> means no key is parsed and no
  dictionary passed to connect has a \<open>private_key\<close> entry, an empty \<open>SNOW_PWD\<close> means none
  has a \<open>password\<close> entry, and with both empty no connect is made and a \<open>RuntimeError\<close>
  results; an empty optional variable leaves its key out of every dictionary passed to
  connect.
\<close>

theorem empty_string_is_absent:
  "get_snowflake_conn w (environ(n \<mapsto> [])) = get_snowflake_conn w (environ(n := None)) \<and>
   run_query w (environ(n \<mapsto> [])) query = run_query w (environ(n := None)) query \<and>
   (environ name = Some [] \<longrightarrow> private_env environ name = environ (lower name)) \<and>
   (snowflake w \<noteq> None \<and>
    (environ ''SNOW_USER'' = Some [] \<and> truthy (environ ''snow_user'') = None \<or>
     environ ''SNOW_ACCOUNT'' = Some [] \<and> truthy (environ ''snow_account'') = None) \<longrightarrow>
      get_snowflake_conn w environ =
        (required_reads environ,
         Inl (RuntimeError ''Missing SNOW_USER or SNOW_ACCOUNT environment variables''))) \<and>
   (environ ''SNOW_PRIVATE_KEY'' = Some [] \<and> truthy (environ ''snow_private_key'') = None \<longrightarrow>
      (\<forall>pem. LoadPem pem \<notin> set (fst (get_snowflake_conn w environ))) \<and>
      (\<forall>kw \<in> set (connects (fst (get_snowflake_conn w environ))). map_of kw ''private_key'' = None) \<and>
      (environ ''SNOW_PWD'' = Some [] \<and> truthy (environ ''snow_pwd'') = None \<longrightarrow>
         connects (fst (get_snowflake_conn w environ)) = [] \<and>
         (\<exists>msg. snd (get_snowflake_conn w environ) = Inl (RuntimeError msg)))) \<and>
   (environ ''SNOW_PWD'' = Some [] \<and> truthy (environ ''snow_pwd'') = None \<longrightarrow>
      (\<forall>kw \<in> set (connects (fst (get_snowflake_conn w environ))). map_of kw ''password'' = None)) \<and>
   (\<forall>(name, k) \<in> set [(''SNOW_WAREHOUSE'', ''warehouse''), (''SNOW_DATABASE'', ''database''),
                       (''SNOW_SCHEMA'', ''schema''), (''SNOW_ROLE'', ''role'')].
      environ name = Some [] \<and> truthy (environ (lower name)) = None \<longrightarrow>
      (\<forall>kw \<in> set (connects (fst (get_snowflake_conn w environ))). map_of kw k = None))"
  (is "?A \<and> ?B \<and> ?C \<and> ?D \<and> ?E \<and> ?F \<and> ?G")
proof -
  have A: ?A
    by (rule get_snowflake_conn_cong) (rule truthy_private_env_empty, rule private_env_reads_empty)
  have B: ?B by (simp add: run_query_def A)
  have C: ?C by (simp add: private_env_def truthy_def)
  have D: ?D
  proof (intro impI)
    assume h: "snowflake w \<noteq> None \<and>
    (environ ''SNOW_USER'' = Some [] \<and> truthy (environ ''snow_user'') = None \<or>
     environ ''SNOW_ACCOUNT'' = Some [] \<and> truthy (environ ''snow_account'') = None)"
    then obtain c where c: "snowflake w = Some c" by auto
    from h have "truthy (private_env environ ''SNOW_USER'') = None \<or>
         truthy (private_env environ ''SNOW_ACCOUNT'') = None"
      using empty_resolves_false [of environ "''SNOW_USER''"]
        empty_resolves_false [of environ "''SNOW_ACCOUNT''"]
      by (auto simp add: lower_names)
    then show "get_snowflake_conn w environ =
        (required_reads environ,
         Inl (RuntimeError ''Missing SNOW_USER or SNOW_ACCOUNT environment variables''))"
      by (rule get_snowflake_conn_missing [OF c])
  qed
  have E: ?E
  proof (intro impI conjI allI ballI)
    assume h: "environ ''SNOW_PRIVATE_KEY'' = Some [] \<and> truthy (environ ''snow_private_key'') = None"
    then have pk: "truthy (private_env environ ''SNOW_PRIVATE_KEY'') = None"
      using empty_resolves_false [of environ "''SNOW_PRIVATE_KEY''"] by (simp add: lower_names)
    show "LoadPem pem \<notin> set (fst (get_snowflake_conn w environ))" for pem
      by (rule get_snowflake_conn_no_key(1) [OF pk])
    show "map_of kw ''private_key'' = None"
      if "kw \<in> set (connects (fst (get_snowflake_conn w environ)))" for kw
      using connect_entries(5) [OF that pk] .
    assume h2: "environ ''SNOW_PWD'' = Some [] \<and> truthy (environ ''snow_pwd'') = None"
    then have pw: "truthy (private_env environ ''SNOW_PWD'') = None"
      using empty_resolves_false [of environ "''SNOW_PWD''"] by (simp add: lower_names)
    show "connects (fst (get_snowflake_conn w environ)) = []"
      using pk pw
      by (simp add: connects_get_snowflake_conn add_auth_cases split: option.splits)
    show "\<exists>msg. snd (get_snowflake_conn w environ) = Inl (RuntimeError msg)"
      by (rule get_snowflake_conn_no_key(2) [OF pk pw])
  qed
  have F: ?F
  proof (intro impI ballI)
    fix kw
    assume h: "environ ''SNOW_PWD'' = Some [] \<and> truthy (environ ''snow_pwd'') = None"
      and kw: "kw \<in> set (connects (fst (get_snowflake_conn w environ)))"
    from h have pw: "truthy (private_env environ ''SNOW_PWD'') = None"
      using empty_resolves_false [of environ "''SNOW_PWD''"] by (simp add: lower_names)
    then show "map_of kw ''password'' = None"
      by (simp add: connect_entries(6) [OF kw])
  qed
  have G: ?G
    using empty_resolves_false [of environ "''SNOW_WAREHOUSE''"]
      empty_resolves_false [of environ "''SNOW_DATABASE''"]
      empty_resolves_false [of environ "''SNOW_SCHEMA''"]
      empty_resolves_false [of environ "''SNOW_ROLE''"]
    by (simp add: connect_entries)
  from A B C D E F G show ?thesis by blast
qed

theorem empty_string_is_absent_witness:
  "[''SNOW_USER'' \<mapsto> [], ''SNOW_ACCOUNT'' \<mapsto> ''xy123''] ''SNOW_USER'' = Some [] \<and>
   truthy ([''SNOW_USER'' \<mapsto> [], ''SNOW_ACCOUNT'' \<mapsto> ''xy123''] ''snow_user'') = None \<and>
   snowflake (example_world (example_connection example_cursor)) \<noteq> None \<and>
   private_env [''SNOW_USER'' \<mapsto> [], ''SNOW_ACCOUNT'' \<mapsto> ''xy123''] ''SNOW_USER'' =
     [''SNOW_USER'' \<mapsto> [], ''SNOW_ACCOUNT'' \<mapsto> ''xy123''] (lower ''SNOW_USER'') \<and>
   get_snowflake_conn (example_world (example_connection example_cursor))
       [''SNOW_USER'' \<mapsto> [], ''SNOW_ACCOUNT'' \<mapsto> ''xy123''] =
     (required_reads [''SNOW_USER'' \<mapsto> [], ''SNOW_ACCOUNT'' \<mapsto> ''xy123''],
      Inl (RuntimeError ''Missing SNOW_USER or SNOW_ACCOUNT environment variables'')) \<and>
   get_snowflake_conn (example_world (example_connection example_cursor))
       (example_environ(''SNOW_USER'' \<mapsto> [])) =
     get_snowflake_conn (example_world (example_connection example_cursor))
       (example_environ(''SNOW_USER'' := None)) \<and>
   (example_environ(''SNOW_PRIVATE_KEY'' \<mapsto> [], ''SNOW_WAREHOUSE'' \<mapsto> [])) ''SNOW_PRIVATE_KEY'' = Some [] \<and>
   (example_environ(''SNOW_PRIVATE_KEY'' \<mapsto> [], ''SNOW_WAREHOUSE'' \<mapsto> [])) ''SNOW_WAREHOUSE'' = Some [] \<and>
   [(''user'', Str ''alice''), (''account'', Str ''xy123''), (''password'', Str ''secret'')]
     \<in> set (connects (fst (get_snowflake_conn (example_world (example_connection example_cursor))
          (example_environ(''SNOW_PRIVATE_KEY'' \<mapsto> [], ''SNOW_WAREHOUSE'' \<mapsto> []))))) \<and>
   map_of [(''user'', Str ''alice''), (''account'', Str ''xy123''), (''password'', Str ''secret'')]
     ''private_key'' = (None :: string kwval option) \<and>
   map_of [(''user'', Str ''alice''), (''account'', Str ''xy123''), (''password'', Str ''secret'')]
     ''warehouse'' = (None :: string kwval option) \<and>
   (example_environ(''SNOW_PWD'' \<mapsto> [], ''SNOW_PRIVATE_KEY'' \<mapsto> ''PEM'')) ''SNOW_PWD'' = Some [] \<and>
   [(''user'', Str ''alice''), (''account'', Str ''xy123''), (''private_key'', PKey ''PEM'')]
     \<in> set (connects (fst (get_snowflake_conn (example_world (example_connection example_cursor))
          (example_environ(''SNOW_PWD'' \<mapsto> [], ''SNOW_PRIVATE_KEY'' \<mapsto> ''PEM''))))) \<and>
   map_of [(''user'', Str ''alice''), (''account'', Str ''xy123''), (''private_key'', PKey ''PEM'')]
     ''password'' = None"
proof -
  let ?w = "example_world (example_connection example_cursor)"
  let ?e1 = "[''SNOW_USER'' \<mapsto> [], ''SNOW_ACCOUNT'' \<mapsto> ''xy123'']"
  let ?e2 = "example_environ(''SNOW_PRIVATE_KEY'' \<mapsto> [], ''SNOW_WAREHOUSE'' \<mapsto> [])"
  let ?e3 = "example_environ(''SNOW_PWD'' \<mapsto> [], ''SNOW_PRIVATE_KEY'' \<mapsto> ''PEM'')"
  let ?kw2 = "[(''user'', Str ''alice''), (''account'', Str ''xy123''),
    (''password'', Str ''secret'')] :: string kwargs"
  let ?kw3 = "[(''user'', Str ''alice''), (''account'', Str ''xy123''),
    (''private_key'', PKey ''PEM'')] :: string kwargs"
  have w: "snowflake ?w \<noteq> None" by (simp add: example_world_def)
  have h1: "?e1 ''SNOW_USER'' = Some [] \<and> truthy (?e1 ''snow_user'') = None"
    by (simp add: truthy_def)
  have h2: "?e2 ''SNOW_PRIVATE_KEY'' = Some [] \<and> truthy (?e2 ''snow_private_key'') = None"
    "?e2 ''SNOW_WAREHOUSE'' = Some [] \<and> truthy (?e2 (lower ''SNOW_WAREHOUSE'')) = None"
    by (simp_all add: truthy_def example_environ_def lower_names)
  have h3: "?e3 ''SNOW_PWD'' = Some [] \<and> truthy (?e3 ''snow_pwd'') = None"
    by (simp add: truthy_def example_environ_def)
  have r2: "private_env ?e2 ''SNOW_USER'' = Some ''alice''"
    "private_env ?e2 ''SNOW_ACCOUNT'' = Some ''xy123''"
    "private_env ?e2 ''SNOW_PWD'' = Some ''secret''"
    "private_env ?e2 ''SNOW_PRIVATE_KEY'' = None"
    "private_env ?e2 ''SNOW_WAREHOUSE'' = None"
    "private_env ?e2 ''SNOW_DATABASE'' = None"
    "private_env ?e2 ''SNOW_SCHEMA'' = None"
    "private_env ?e2 ''SNOW_ROLE'' = None"
    by (simp_all add: private_env_def example_environ_def truthy_def lower_names)
  have r3: "private_env ?e3 ''SNOW_USER'' = Some ''alice''"
    "private_env ?e3 ''SNOW_ACCOUNT'' = Some ''xy123''"
    "private_env ?e3 ''SNOW_PWD'' = None"
    "private_env ?e3 ''SNOW_PRIVATE_KEY'' = Some ''PEM''"
    "private_env ?e3 ''SNOW_WAREHOUSE'' = None"
    "private_env ?e3 ''SNOW_DATABASE'' = None"
    "private_env ?e3 ''SNOW_SCHEMA'' = None"
    "private_env ?e3 ''SNOW_ROLE'' = None"
    by (simp_all add: private_env_def example_environ_def truthy_def lower_names)
  have m2: "?kw2 \<in> set (connects (fst (get_snowflake_conn ?w ?e2)))"
    by (simp add: connects_get_snowflake_conn r2 truthy_simps example_world_def
        with_optionals_def put_opt_def add_auth_cases)
  have m3: "?kw3 \<in> set (connects (fst (get_snowflake_conn ?w ?e3)))"
    by (simp add: connects_get_snowflake_conn r3 truthy_simps example_world_def
        with_optionals_def put_opt_def add_auth_cases valid_utf8_PEM del: valid_utf8.simps)
  from empty_string_is_absent [of ?w ?e1 "''SNOW_USER''" "''SELECT 1''" "''SNOW_USER''"] w h1
  have c1: "private_env ?e1 ''SNOW_USER'' = ?e1 (lower ''SNOW_USER'')"
    "get_snowflake_conn ?w ?e1 =
       (required_reads ?e1,
        Inl (RuntimeError ''Missing SNOW_USER or SNOW_ACCOUNT environment variables''))"
    by blast+
  from empty_string_is_absent [of ?w example_environ "''SNOW_USER''" "''SELECT 1''" "''SNOW_USER''"]
  have c0: "get_snowflake_conn ?w (example_environ(''SNOW_USER'' \<mapsto> [])) =
     get_snowflake_conn ?w (example_environ(''SNOW_USER'' := None))"
    by blast
  from empty_string_is_absent [of ?w ?e2 "''SNOW_USER''" "''SELECT 1''" "''SNOW_USER''"] h2 m2
  have c2: "map_of ?kw2 ''private_key'' = None" "map_of ?kw2 ''warehouse'' = None"
    by simp_all
  from empty_string_is_absent [of ?w ?e3 "''SNOW_USER''" "''SELECT 1''" "''SNOW_USER''"] h3 m3
  have c3: "map_of ?kw3 ''password'' = None"
    by simp
  from w h1 h2 h3 m2 m3 c0 c1 c2 c3 show ?thesis by blast
qed

subsection \<open>The query runner\<close>

text \<open>
  C2. In the setting of the claim the driver's connect returns a connection and the
  connection hands out a cursor. Then, for every query and whatever \<open>execute\<close>,
  \<open>fetchall\<close> and the two \<open>close\<close> calls do (return or raise), the trace of the query
  runner is the factory's trace followed by: cursor, execute of the query, fetchall if
  execute returned, cursor close, connection close. So there is exactly one execute
  call, with the query given, exactly one cursor close and exactly one connection
  close, on every exit path.
\<close>

theorem run_query_calls_once:
  assumes "snd (get_snowflake_conn w environ) = Inr conn" and "conn_cursor conn = Inr cur"
  shows "fst (run_query w environ query) =
           fst (get_snowflake_conn w environ) @ [ConnCursor, CurExecute query] @
           (if cur_execute cur query = None then [CurFetchall] else []) @ [CurClose, ConnClose] \<and>
         executes (fst (run_query w environ query)) = [query] \<and>
         count_list (fst (run_query w environ query)) CurClose = 1 \<and>
         count_list (fst (run_query w environ query)) ConnClose = 1"
proof -
  obtain t where g: "get_snowflake_conn w environ = (t, Inr conn)"
    using assms(1) by (cases "get_snowflake_conn w environ") simp
  have "list_all factory_event t"
    using factory_events [of w environ] by (simp add: g)
  note c = factory_trace_counts [OF this]
  show ?thesis
    by (simp add: run_query_with_cursor [OF g assms(2)] g c executes_simps)
qed

theorem run_query_calls_once_witness:
  "snd (get_snowflake_conn (example_world (example_connection failing_cursor)) example_environ) =
     Inr (example_connection failing_cursor) \<and>
   conn_cursor (example_connection failing_cursor) = Inr failing_cursor \<and>
   cur_execute failing_cursor ''SELECT 1'' = Some (Raised ()) \<and>
   executes (fst (run_query (example_world (example_connection failing_cursor))
       example_environ ''SELECT 1'')) = [''SELECT 1''] \<and>
   count_list (fst (run_query (example_world (example_connection failing_cursor))
       example_environ ''SELECT 1'')) CurClose = 1 \<and>
   count_list (fst (run_query (example_world (example_connection failing_cursor))
       example_environ ''SELECT 1'')) ConnClose = 1"
proof -
  have h1: "snd (get_snowflake_conn (example_world (example_connection failing_cursor))
      example_environ) = Inr (example_connection failing_cursor)"
    by (rule example_factory)
  have h2: "conn_cursor (example_connection failing_cursor) = Inr failing_cursor"
    by (simp add: example_connection_def)
  have h3: "cur_execute failing_cursor ''SELECT 1'' = Some (Raised ())"
    by (simp add: failing_cursor_def)
  from run_query_calls_once [OF h1 h2, of "''SELECT 1''"] h1 h2 h3 show ?thesis by blast
qed

text \<open>
  C7. In every trace of the query runner no cursor close comes at or after a connection
  close. Once a cursor was obtained, every exit path (normal return or exception) ends
  with the cursor's close followed directly by the connection's close, and neither is
  called before.
\<close>

theorem cursor_closed_before_connection:
  "CurClose \<notin> set (dropWhile (\<lambda>ev. ev \<noteq> ConnClose) (fst (run_query w environ query))) \<and>
   (snd (get_snowflake_conn w environ) = Inr conn \<and> conn_cursor conn = Inr cur \<longrightarrow>
      (\<exists>pre. fst (run_query w environ query) = pre @ [CurClose, ConnClose] \<and>
             CurClose \<notin> set pre \<and> ConnClose \<notin> set pre))"
proof -
  obtain t r where g: "get_snowflake_conn w environ = (t, r)"
    by (cases "get_snowflake_conn w environ") blast
  have "list_all factory_event t"
    using factory_events [of w environ] by (simp add: g)
  note c = factory_trace_counts [OF this]
  have dw: "dropWhile (\<lambda>ev. ev \<noteq> ConnClose) (t @ t') = dropWhile (\<lambda>ev. ev \<noteq> ConnClose) t'"
    for t'
    using c(5) by (simp add: dropWhile_append)
  show ?thesis
  proof (cases r)
    case (Inl e)
    with g c(4) show ?thesis
      by (auto simp add: run_query_no_connection [of w environ t e] dest: set_dropWhileD)
  next
    case (Inr conn')
    show ?thesis
    proof (cases "conn_cursor conn'")
      case (Inl e)
      from g Inr have g': "get_snowflake_conn w environ = (t, Inr conn')" by simp
      show ?thesis
        using Inl by (auto simp add: run_query_no_cursor [OF g' Inl] dw g')
    next
      case cur': (Inr cur')
      from g Inr have g': "get_snowflake_conn w environ = (t, Inr conn')" by simp
      have "fst (run_query w environ query) =
          (t @ [ConnCursor, CurExecute query] @
            (if cur_execute cur' query = None then [CurFetchall] else [])) @ [CurClose, ConnClose]"
        by (simp add: run_query_with_cursor [OF g' cur'])
      moreover have "CurClose \<notin> set (t @ [ConnCursor, CurExecute query] @
            (if cur_execute cur' query = None then [CurFetchall] else []))"
        "ConnClose \<notin> set (t @ [ConnCursor, CurExecute query] @
            (if cur_execute cur' query = None then [CurFetchall] else []))"
        using c by simp_all
      moreover have "CurClose \<notin> set (dropWhile (\<lambda>ev. ev \<noteq> ConnClose) (fst (run_query w environ query)))"
        by (simp add: run_query_with_cursor [OF g' cur'] dw)
      ultimately show ?thesis by blast
    qed
  qed
qed

theorem cursor_closed_before_connection_witness:
  "snd (get_snowflake_conn (example_world (example_connection example_cursor)) example_environ) =
     Inr (example_connection example_cursor) \<and>
   conn_cursor (example_connection example_cursor) = Inr example_cursor \<and>
   CurClose \<notin> set (dropWhile (\<lambda>ev. ev \<noteq> ConnClose)
     (fst (run_query (example_world (example_connection example_cursor))
        example_environ ''SELECT 1''))) \<and>
   (\<exists>pre. fst (run_query (example_world (example_connection example_cursor))
        example_environ ''SELECT 1'') = pre @ [CurClose, ConnClose] \<and>
      CurClose \<notin> set pre \<and> ConnClose \<notin> set pre)"
proof -
  have h1: "snd (get_snowflake_conn (example_world (example_connection example_cursor))
      example_environ) = Inr (example_connection example_cursor)"
    by (rule example_factory)
  have h2: "conn_cursor (example_connection example_cursor) = Inr example_cursor"
    by (simp add: example_connection_def)
  from cursor_closed_before_connection
    [of "example_world (example_connection example_cursor)" example_environ "''SELECT 1''"
      "example_connection example_cursor" example_cursor] h1 h2
  show ?thesis by blast
qed

text \<open>
  C10. With the connection acquired: if \<open>conn.cursor()\<close> raises, the query runner still
  calls the connection's close, and then an exception leaves it: the cursor's exception,
  unless close raised one of its own. If \<open>execute\<close> returns and \<open>fetchall\<close> raises, the
  cursor is closed, then the connection, and then an exception leaves the runner:
  that of \<open>fetchall\<close>, unless one of the close calls raised.
\<close>

theorem release_when_cursor_or_fetch_fails:
  "(snd (get_snowflake_conn w environ) = Inr conn \<and> conn_cursor conn = Inl e \<longrightarrow>
      fst (run_query w environ query) =
        fst (get_snowflake_conn w environ) @ [ConnCursor, ConnClose] \<and>
      snd (run_query w environ query) =
        Inl (case conn_close conn of None \<Rightarrow> e | Some e' \<Rightarrow> e')) \<and>
   (snd (get_snowflake_conn w environ) = Inr conn \<and> conn_cursor conn = Inr cur \<and>
    cur_execute cur query = None \<and> cur_fetchall cur query = Inl e \<longrightarrow>
      fst (run_query w environ query) =
        fst (get_snowflake_conn w environ) @
        [ConnCursor, CurExecute query, CurFetchall, CurClose, ConnClose] \<and>
      snd (run_query w environ query) =
        Inl (case conn_close conn of
               Some e2 \<Rightarrow> e2
             | None \<Rightarrow> (case cur_close cur of Some e1 \<Rightarrow> e1 | None \<Rightarrow> e)))"
proof -
  obtain t r where g: "get_snowflake_conn w environ = (t, r)"
    by (cases "get_snowflake_conn w environ") blast
  show ?thesis
  proof (intro conjI impI)
    assume h: "snd (get_snowflake_conn w environ) = Inr conn \<and> conn_cursor conn = Inl e"
    with g have g': "get_snowflake_conn w environ = (t, Inr conn)" by simp
    from h have ce: "conn_cursor conn = Inl e" by simp
    show "fst (run_query w environ query) =
        fst (get_snowflake_conn w environ) @ [ConnCursor, ConnClose]"
      by (simp add: run_query_no_cursor [OF g' ce] g')
    show "snd (run_query w environ query) =
        Inl (case conn_close conn of None \<Rightarrow> e | Some e' \<Rightarrow> e')"
      by (simp add: run_query_no_cursor [OF g' ce])
  next
    assume h: "snd (get_snowflake_conn w environ) = Inr conn \<and> conn_cursor conn = Inr cur \<and>
      cur_execute cur query = None \<and> cur_fetchall cur query = Inl e"
    with g have g': "get_snowflake_conn w environ = (t, Inr conn)" by simp
    from h have cc: "conn_cursor conn = Inr cur" by simp
    show "fst (run_query w environ query) =
        fst (get_snowflake_conn w environ) @
        [ConnCursor, CurExecute query, CurFetchall, CurClose, ConnClose]"
      using h by (simp add: run_query_with_cursor [OF g' cc] g')
    show "snd (run_query w environ query) =
        Inl (case conn_close conn of
               Some e2 \<Rightarrow> e2
             | None \<Rightarrow> (case cur_close cur of Some e1 \<Rightarrow> e1 | None \<Rightarrow> e))"
      using h by (simp add: run_query_with_cursor [OF g' cc] split: option.splits)
  qed
qed

theorem release_when_cursor_or_fetch_fails_witness:
  "snd (get_snowflake_conn (example_world no_cursor_connection) example_environ) =
     Inr no_cursor_connection \<and>
   conn_cursor no_cursor_connection = Inl (Raised ()) \<and>
   fst (run_query (example_world no_cursor_connection) example_environ ''SELECT 1'') =
     fst (get_snowflake_conn (example_world no_cursor_connection) example_environ) @
     [ConnCursor, ConnClose] \<and>
   snd (run_query (example_world no_cursor_connection) example_environ ''SELECT 1'') =
     Inl (Raised ()) \<and>
   snd (get_snowflake_conn (example_world (example_connection failing_fetch_cursor))
     example_environ) = Inr (example_connection failing_fetch_cursor) \<and>
   conn_cursor (example_connection failing_fetch_cursor) = Inr failing_fetch_cursor \<and>
   cur_execute failing_fetch_cursor ''SELECT 1'' = None \<and>
   cur_fetchall failing_fetch_cursor ''SELECT 1'' = Inl (Raised ()) \<and>
   fst (run_query (example_world (example_connection failing_fetch_cursor)) example_environ
       ''SELECT 1'') =
     fst (get_snowflake_conn (example_world (example_connection failing_fetch_cursor))
       example_environ) @
     [ConnCursor, CurExecute ''SELECT 1'', CurFetchall, CurClose, ConnClose] \<and>
   snd (run_query (example_world (example_connection failing_fetch_cursor)) example_environ
       ''SELECT 1'') = Inl (Raised ())"
proof -
  have a: "snd (get_snowflake_conn (example_world no_cursor_connection) example_environ) =
     Inr no_cursor_connection \<and> conn_cursor no_cursor_connection = Inl (Raised ())"
    by (simp add: example_factory no_cursor_connection_def)
  have b: "snd (get_snowflake_conn (example_world (example_connection failing_fetch_cursor))
     example_environ) = Inr (example_connection failing_fetch_cursor) \<and>
   conn_cursor (example_connection failing_fetch_cursor) = Inr failing_fetch_cursor \<and>
   cur_execute failing_fetch_cursor ''SELECT 1'' = None \<and>
   cur_fetchall failing_fetch_cursor ''SELECT 1'' = Inl (Raised ())"
    by (simp add: example_factory example_connection_def failing_fetch_cursor_def
        example_cursor_def)
  have ca: "conn_close no_cursor_connection = None"
    by (simp add: no_cursor_connection_def)
  have cb: "conn_close (example_connection failing_fetch_cursor) = None"
    "cur_close failing_fetch_cursor = None"
    by (simp_all add: example_connection_def failing_fetch_cursor_def example_cursor_def)
  from release_when_cursor_or_fetch_fails
    [of "example_world no_cursor_connection" example_environ no_cursor_connection "Raised ()"
      "''SELECT 1''"] a ca
  have "fst (run_query (example_world no_cursor_connection) example_environ ''SELECT 1'') =
     fst (get_snowflake_conn (example_world no_cursor_connection) example_environ) @
     [ConnCursor, ConnClose] \<and>
   snd (run_query (example_world no_cursor_connection) example_environ ''SELECT 1'') =
     Inl (Raised ())"
    by simp
  moreover
  from release_when_cursor_or_fetch_fails
    [of "example_world (example_connection failing_fetch_cursor)" example_environ
      "example_connection failing_fetch_cursor" "Raised ()" "''SELECT 1''" failing_fetch_cursor]
    b cb
  have "fst (run_query (example_world (example_connection failing_fetch_cursor)) example_environ
       ''SELECT 1'') =
     fst (get_snowflake_conn (example_world (example_connection failing_fetch_cursor))
       example_environ) @
     [ConnCursor, CurExecute ''SELECT 1'', CurFetchall, CurClose, ConnClose] \<and>
   snd (run_query (example_world (example_connection failing_fetch_cursor)) example_environ
       ''SELECT 1'') = Inl (Raised ())"
    by simp
  ultimately show ?thesis using a b by blast
qed

end
